theory Spec2Isabelle
  imports Main "HOL-Library.Word"
begin

text \<open>
  A model of \<^verbatim>\<open>ipmmap/struct_mmap_manager.py\<close>: the accessor classes
  \<open>BaseStructMmapManager\<close>, \<open>DataStructMmapReader\<close>, \<open>DataStructMmapEditor\<close> and
  \<open>DataStructMmapManager\<close> over a memory-mapped ctypes structure. A method is a
  function from the accessor (and, for the constructor of the Manager, the file system)
  to its result and the accessor afterwards; a raised exception is the result
  \<open>Inl\<close>, and what the method changed before raising stays changed. What the module
  takes from elsewhere (ctypes, mmap, the file system, the rest of the package) is
  modelled below or is a parameter.
\<close>

section \<open>Exceptions\<close>

text \<open>
  The exceptions the methods of \<^verbatim>\<open>struct_mmap_manager.py\<close> can end with. The first
  five are Python's own, raised by attribute access, by ctypes, by mmap and by file
  input/output. \<open>StructNotFoundIpMmapError\<close> is the one exception the module raises
  itself. The last three belong to the taxonomy of the specification; no method
  below produces them, only the path resolution of the specification does.
\<close>

datatype error =
    AttributeError string
  | TypeError
  | ValueError
  | OverflowError
  | OSError
  | StructNotFoundIpMmapError string
  | FieldNotFoundError string
  | NotNavigableError string
  | StoreCreationError

section \<open>ctypes layouts and Python values\<close>

type_synonym byte = "8 word"

text \<open>
  A ctypes type: an integer of a width in bytes, signed or not; \<open>c_double\<close>;
  \<open>c_float\<close>; \<open>c_bool\<close>; \<open>c_char\<close>; an array of \<open>c_char\<close> (which ctypes treats as
  a C string); an array of any other element type; a structure with its class name, its
  fields in declaration order (base-class fields first), each with the offset ctypes
  assigned to it, and its size. Offsets and size are data, so that padding, packing and
  unions are all covered. Pointers, \<open>c_wchar\<close>, \<open>c_longdouble\<close> and bit fields are
  not among the types.
\<close>

datatype ctype =
    CInt nat bool
  | CDouble
  | CFloat
  | CBool
  | CChar
  | CCharArray nat
  | CArray ctype nat
  | CStruct string "(string \<times> nat \<times> ctype) list" nat

type_synonym struct_type = "string \<times> (string \<times> nat \<times> ctype) list \<times> nat"

definition class_name :: "struct_type \<Rightarrow> string" where
  "class_name st = fst st"

definition as_ctype :: "struct_type \<Rightarrow> ctype" where
  "as_ctype st = CStruct (fst st) (fst (snd st)) (snd (snd st))"

fun sizeof :: "ctype \<Rightarrow> nat" where
  "sizeof (CInt n sg) = n"
| "sizeof CDouble = 8"
| "sizeof CFloat = 4"
| "sizeof CBool = 1"
| "sizeof CChar = 1"
| "sizeof (CCharArray n) = n"
| "sizeof (CArray t n) = n * sizeof t"
| "sizeof (CStruct nm fs sz) = sz"

text \<open>
  The layouts ctypes can build: integers of 1, 2, 4 or 8 bytes, arrays whose element type
  is not \<open>c_char\<close> (that array is the C string type above), and every field of a
  structure inside the structure.
\<close>

fun wf_ctype :: "ctype \<Rightarrow> bool" where
  "wf_ctype (CInt n sg) = (n = 1 \<or> n = 2 \<or> n = 4 \<or> n = 8)"
| "wf_ctype (CArray t n) = (t \<noteq> CChar \<and> wf_ctype t)"
| "wf_ctype (CStruct nm fs sz) =
     list_all (\<lambda>f. fst (snd f) + sizeof (snd (snd f)) \<le> sz \<and> wf_ctype (snd (snd f))) fs"
| "wf_ctype t = True"

text \<open>
  The values \<open>writeData\<close> is given and fields decode to: a Python int, a bool, a
  float (by its IEEE 754 bit pattern; a \<open>c_double\<close> field stores and loads it
  unchanged), a bytes object, and a ctypes instance (of a structure or array type) that
  owns a copy of its bytes. Other Python objects (tuples, bytearrays, \<open>None\<close>) are not
  among the values.
\<close>

datatype pyval =
    PyInt int
  | PyBool bool
  | PyFloat "64 word"
  | PyBytes "byte list"
  | PyCData ctype "byte list"

text \<open>
  The objects attribute navigation meets: \<open>None\<close>, a value, a ctypes instance that
  lives at an offset of the buffer it was made from (\<open>from_buffer\<close>,
  \<open>from_buffer_copy\<close> and their nested structures), and any other Python object
  (what an attribute that is not a field evaluates to), kept opaque.
\<close>

datatype pyobj =
    PyNone
  | Val pyval
  | View ctype nat
  | Other nat

text \<open>
  What the methods take from the Python runtime and the host, as parameters: the byte
  order, the conversion of an int offered to a floating-point field (\<open>None\<close>: the int
  is too large, OverflowError), the attributes an object has besides the fields of its
  structure (\<open>None\<close>: AttributeError), the exception, if any, that Python names for
  assigning such an attribute (TypeError for \<open>__class__\<close>, say), and which ctypes
  classes are proper subclasses of which.
\<close>

record python =
  big_endian :: bool
  float_of_int :: "int \<Rightarrow> 64 word option"
  attr_of :: "pyobj \<Rightarrow> string \<Rightarrow> nat option"
  setattr_error :: "pyobj \<Rightarrow> string \<Rightarrow> pyval \<Rightarrow> error option"
  subclass_of :: "ctype \<Rightarrow> ctype \<Rightarrow> bool"

subsection \<open>Bytes of a buffer\<close>

definition slice :: "nat \<Rightarrow> nat \<Rightarrow> byte list \<Rightarrow> byte list" where
  "slice off n buf = take n (drop off buf)"

definition store :: "nat \<Rightarrow> byte list \<Rightarrow> byte list \<Rightarrow> byte list" where
  "store off bs buf = take off buf @ bs @ drop (off + length bs) buf"

fun encode_le :: "nat \<Rightarrow> nat \<Rightarrow> byte list" where
  "encode_le 0 x = []"
| "encode_le (Suc n) x = of_nat (x mod 256) # encode_le n (x div 256)"

fun decode_le :: "byte list \<Rightarrow> nat" where
  "decode_le [] = 0"
| "decode_le (b # bs) = unat b + 256 * decode_le bs"

definition byte_order :: "python \<Rightarrow> byte list \<Rightarrow> byte list" where
  "byte_order py bs = (if big_endian py then rev bs else bs)"

definition int_to_bytes :: "python \<Rightarrow> nat \<Rightarrow> int \<Rightarrow> byte list" where
  "int_to_bytes py n i = byte_order py (encode_le n (nat (i mod 2 ^ (8 * n))))"

definition bytes_to_int :: "python \<Rightarrow> bool \<Rightarrow> byte list \<Rightarrow> int" where
  "bytes_to_int py sg bs =
     (let u = int (decode_le (byte_order py bs))
      in if sg \<and> 2 ^ (8 * length bs - 1) \<le> u then u - 2 ^ (8 * length bs) else u)"

definition float_to_bytes :: "python \<Rightarrow> 64 word \<Rightarrow> byte list" where
  "float_to_bytes py w = byte_order py (encode_le 8 (unat w))"

definition bytes_to_float :: "python \<Rightarrow> byte list \<Rightarrow> 64 word" where
  "bytes_to_float py bs = of_nat (decode_le (byte_order py bs))"

definition single_to_bytes :: "python \<Rightarrow> 32 word \<Rightarrow> byte list" where
  "single_to_bytes py s = byte_order py (encode_le 4 (unat s))"

definition bytes_to_single :: "python \<Rightarrow> byte list \<Rightarrow> 32 word" where
  "bytes_to_single py bs = of_nat (decode_le (byte_order py bs))"

subsection \<open>Single precision\<close>

text \<open>
  A \<open>c_float\<close> field holds the C cast of the Python float (a double) to \<open>float\<close> and
  reads as the cast back. Both are given on the IEEE 754 bit patterns: sign, exponent and
  fraction. Widening is exact; a subnormal single is normalised, a NaN keeps the high
  bits of its payload and is made quiet. Narrowing rounds to nearest, ties to even, into
  the subnormal range and to infinity where the double is out of range.
\<close>

fun msb :: "nat \<Rightarrow> nat" where
  "msb n = (if n < 2 then 0 else Suc (msb (n div 2)))"

declare msb.simps [simp del]

definition widen_bits :: "nat \<Rightarrow> nat" where
  "widen_bits s =
     (let sgn = s div 2 ^ 31; e = s div 2 ^ 23 mod 2 ^ 8; f = s mod 2 ^ 23
      in sgn * 2 ^ 63 +
         (if e = 255 then 2047 * 2 ^ 52 + (if f = 0 then 0 else (f mod 2 ^ 22 + 2 ^ 22) * 2 ^ 29)
          else if e = 0 then
            (if f = 0 then 0 else (msb f + 874) * 2 ^ 52 + (f - 2 ^ msb f) * 2 ^ (52 - msb f))
          else (e + 896) * 2 ^ 52 + f * 2 ^ 29))"

definition narrow_bits :: "nat \<Rightarrow> nat" where
  "narrow_bits w =
     (let sgn = w div 2 ^ 63; E = w div 2 ^ 52 mod 2 ^ 11; F = w mod 2 ^ 52
      in sgn * 2 ^ 31 +
         (if E = 2047 then 255 * 2 ^ 23 + (if F = 0 then 0 else F div 2 ^ 29 mod 2 ^ 22 + 2 ^ 22)
          else if E = 0 then 0
          else (let M = 2 ^ 52 + F;
                    shift = (if 897 \<le> E then 29 else 926 - E);
                    base = (if 897 \<le> E then (E - 897) * 2 ^ 23 else 0);
                    m0 = M div 2 ^ shift;
                    r = M mod 2 ^ shift;
                    up = (2 ^ (shift - 1) < r \<or> (r = 2 ^ (shift - 1) \<and> odd m0))
                in min (base + m0 + (if up then 1 else 0)) (255 * 2 ^ 23))))"

definition float_widen :: "32 word \<Rightarrow> 64 word" where
  "float_widen s = of_nat (widen_bits (unat s))"

definition float_narrow :: "64 word \<Rightarrow> 32 word" where
  "float_narrow w = of_nat (narrow_bits (unat w))"

text \<open>
  A signalling NaN, the one kind of single that the two casts do not give back: widening
  makes it quiet.
\<close>

definition signalling_nan :: "32 word \<Rightarrow> bool" where
  "signalling_nan s =
     (unat s div 2 ^ 23 mod 2 ^ 8 = 255 \<and> 0 < unat s mod 2 ^ 23 \<and> unat s mod 2 ^ 23 < 2 ^ 22)"

subsection \<open>What ctypes makes of a value\<close>

text \<open>
  An integer field takes an int or a bool; a floating-point field takes a float, or an
  int or bool converted; a \<open>c_bool\<close> field takes the truth value of an int, a bool, a
  float (zero of either sign is false) or a bytes object (empty is false).
\<close>

fun as_int :: "pyval \<Rightarrow> int option" where
  "as_int (PyInt i) = Some i"
| "as_int (PyBool b) = Some (if b then 1 else 0)"
| "as_int v = None"

definition as_double :: "python \<Rightarrow> pyval \<Rightarrow> error + 64 word" where
  "as_double py v =
     (case v of
        PyFloat w \<Rightarrow> Inr w
      | _ \<Rightarrow>
          (case as_int v of
             None \<Rightarrow> Inl TypeError
           | Some i \<Rightarrow>
               (case float_of_int py i of None \<Rightarrow> Inl OverflowError | Some w \<Rightarrow> Inr w)))"

fun truth :: "pyval \<Rightarrow> bool option" where
  "truth (PyInt i) = Some (i \<noteq> 0)"
| "truth (PyBool b) = Some b"
| "truth (PyFloat w) = Some (w \<noteq> 0 \<and> w \<noteq> 0x8000000000000000)"
| "truth (PyBytes b) = Some (b \<noteq> [])"
| "truth (PyCData t bs) = None"

subsection \<open>Fields\<close>

text \<open>
  Reading a field of a ctypes instance at \<open>off\<close> of \<open>buf\<close>. A nested structure is
  an instance on the same buffer; a \<open>c_char\<close> array reads up to its first NUL.
\<close>

fun field_get :: "python \<Rightarrow> byte list \<Rightarrow> nat \<Rightarrow> ctype \<Rightarrow> pyobj" where
  "field_get py buf off (CInt n sg) = Val (PyInt (bytes_to_int py sg (slice off n buf)))"
| "field_get py buf off CDouble = Val (PyFloat (bytes_to_float py (slice off 8 buf)))"
| "field_get py buf off CFloat =
     Val (PyFloat (float_widen (bytes_to_single py (slice off 4 buf))))"
| "field_get py buf off CBool = Val (PyBool (list_ex (\<lambda>b. b \<noteq> 0) (slice off 1 buf)))"
| "field_get py buf off CChar = Val (PyBytes (slice off 1 buf))"
| "field_get py buf off (CCharArray n) =
     Val (PyBytes (takeWhile (\<lambda>b. b \<noteq> 0) (slice off n buf)))"
| "field_get py buf off (CArray t n) = View (CArray t n) off"
| "field_get py buf off (CStruct nm fs sz) = View (CStruct nm fs sz) off"

text \<open>
  Assigning a field: the new buffer, or the exception of ctypes. Integers wrap without
  a check; a \<open>c_char\<close> takes one byte or an int below 256; a \<open>c_char\<close> array takes
  the bytes up to their first NUL, refuses more than it holds and adds the NUL when
  there is room; a structure or an array takes an instance of its own type or of a
  subclass, and copies as many bytes as the field has.
\<close>

fun field_set :: "python \<Rightarrow> byte list \<Rightarrow> nat \<Rightarrow> ctype \<Rightarrow> pyval \<Rightarrow> error + byte list" where
  "field_set py buf off (CInt n sg) v =
     (case as_int v of
        Some i \<Rightarrow> Inr (store off (int_to_bytes py n i) buf)
      | None \<Rightarrow> Inl TypeError)"
| "field_set py buf off CDouble v =
     (case as_double py v of
        Inl e \<Rightarrow> Inl e
      | Inr w \<Rightarrow> Inr (store off (float_to_bytes py w) buf))"
| "field_set py buf off CFloat v =
     (case as_double py v of
        Inl e \<Rightarrow> Inl e
      | Inr w \<Rightarrow> Inr (store off (single_to_bytes py (float_narrow w)) buf))"
| "field_set py buf off CBool v =
     (case truth v of
        None \<Rightarrow> Inl TypeError
      | Some b \<Rightarrow> Inr (store off [if b then 1 else 0] buf))"
| "field_set py buf off CChar v =
     (case v of
        PyBytes b \<Rightarrow> (if length b = 1 then Inr (store off b buf) else Inl TypeError)
      | PyCData t bs \<Rightarrow> Inl TypeError
      | PyFloat w \<Rightarrow> Inl TypeError
      | _ \<Rightarrow>
          (case as_int v of
             None \<Rightarrow> Inl TypeError
           | Some i \<Rightarrow>
               (if 0 \<le> i \<and> i < 256 then Inr (store off [of_int i] buf) else Inl TypeError)))"
| "field_set py buf off (CCharArray n) v =
     (case v of
        PyBytes b \<Rightarrow>
          (let data = takeWhile (\<lambda>c. c \<noteq> 0) b
           in if n < length data then Inl ValueError
              else Inr (store off (if length data < n then data @ [0] else data) buf))
      | _ \<Rightarrow> Inl TypeError)"
| "field_set py buf off (CArray t n) v =
     (case v of
        PyCData t' bs \<Rightarrow>
          (if (t' = CArray t n \<or> subclass_of py t' (CArray t n)) \<and> n * sizeof t \<le> length bs
           then Inr (store off (take (n * sizeof t) bs) buf)
           else Inl TypeError)
      | _ \<Rightarrow> Inl TypeError)"
| "field_set py buf off (CStruct nm fs sz) v =
     (case v of
        PyCData t' bs \<Rightarrow>
          (if (t' = CStruct nm fs sz \<or> subclass_of py t' (CStruct nm fs sz)) \<and> sz \<le> length bs
           then Inr (store off (take sz bs) buf)
           else Inl TypeError)
      | _ \<Rightarrow> Inl TypeError)"

text \<open>
  The field a name denotes on a structure: the fields are class attributes assigned in
  declaration order, so the last declaration of a name is the one found.
\<close>

definition field_of :: "ctype \<Rightarrow> string \<Rightarrow> (nat \<times> ctype) option" where
  "field_of t k = (case t of CStruct nm fs sz \<Rightarrow> map_of (rev fs) k | _ \<Rightarrow> None)"

text \<open>\<open>getattr(obj, k)\<close>: a field of a structure instance first, any other attribute next.\<close>

definition py_getattr :: "python \<Rightarrow> byte list \<Rightarrow> pyobj \<Rightarrow> string \<Rightarrow> error + pyobj" where
  "py_getattr py buf obj k =
     (case (case obj of View t off \<Rightarrow> map_option (\<lambda>f. (off + fst f, snd f)) (field_of t k)
                      | _ \<Rightarrow> None) of
        Some (off', t') \<Rightarrow> Inr (field_get py buf off' t')
      | None \<Rightarrow>
          (case attr_of py obj k of
             None \<Rightarrow> Inl (AttributeError k)
           | Some n \<Rightarrow> Inr (Other n)))"

text \<open>
  \<open>setattr(obj, k, v)\<close>: a field of a structure instance is written into the buffer.
  Any other name on a ctypes instance or an opaque object is an attribute of the Python
  object and leaves the buffer alone (the runtime says whether it raises). \<open>None\<close>,
  an int, a bool, a float and bytes take no attribute: the assignment always raises,
  the exception the runtime names for it, and an AttributeError otherwise.
\<close>

definition py_setattr ::
  "python \<Rightarrow> byte list \<Rightarrow> pyobj \<Rightarrow> string \<Rightarrow> pyval \<Rightarrow> error + byte list" where
  "py_setattr py buf obj k v =
     (case (case obj of View t off \<Rightarrow> map_option (\<lambda>f. (off + fst f, snd f)) (field_of t k)
                      | _ \<Rightarrow> None) of
        Some (off', t') \<Rightarrow> field_set py buf off' t' v
      | None \<Rightarrow>
          (case obj of
             PyNone \<Rightarrow>
               Inl (case setattr_error py obj k v of Some e \<Rightarrow> e | None \<Rightarrow> AttributeError k)
           | Val x \<Rightarrow>
               Inl (case setattr_error py obj k v of Some e \<Rightarrow> e | None \<Rightarrow> AttributeError k)
           | _ \<Rightarrow> (case setattr_error py obj k v of Some e \<Rightarrow> Inl e | None \<Rightarrow> Inr buf)))"

text \<open>The loop \<^verbatim>\<open>for k in ks: val = getattr(val, k)\<close>.\<close>

fun getattrs :: "python \<Rightarrow> byte list \<Rightarrow> pyobj \<Rightarrow> string list \<Rightarrow> error + pyobj" where
  "getattrs py buf obj [] = Inr obj"
| "getattrs py buf obj (k # ks) =
     (case py_getattr py buf obj k of
        Inl e \<Rightarrow> Inl e
      | Inr obj' \<Rightarrow> getattrs py buf obj' ks)"

text \<open>
  A ctypes instance handed back to the caller keeps its memory: the value returned is
  the instance with the bytes it stands on.
\<close>

definition detach :: "byte list \<Rightarrow> pyobj \<Rightarrow> pyobj" where
  "detach buf obj =
     (case obj of View t off \<Rightarrow> Val (PyCData t (slice off (sizeof t) buf)) | _ \<Rightarrow> obj)"

text \<open>\<open>key.split('.')\<close>: never empty; an empty key is one empty segment.\<close>

fun split_on :: "char \<Rightarrow> string \<Rightarrow> string list" where
  "split_on c [] = [[]]"
| "split_on c (x # xs) =
     (if x = c then [] # split_on c xs
      else (case split_on c xs of
              [] \<Rightarrow> [[x]]
            | w # ws \<Rightarrow> (x # w) # ws))"

section \<open>The mapping and the accessor object\<close>

text \<open>
  An \<open>mmap\<close> object: the mapped bytes (shared with the backing file), the cursor of
  its file-like interface, whether it has been closed, and whether it was mapped
  writable.
\<close>

record mmap_obj =
  buf :: "byte list"
  pos :: nat
  closed :: bool
  writable :: bool

text \<open>
  The calls a method makes on its collaborators, in order: the mapping (\<open>seek\<close>,
  \<open>from_buffer_copy\<close>, \<open>from_buffer\<close>, \<open>memset\<close> through the instance), the
  backing file (\<open>open\<close>, \<open>write\<close>) and the advisory lock of a lock-file path.
\<close>

datatype call =
    MmSeek nat
  | MmFromBufferCopy
  | MmFromBuffer
  | MmMemset
  | FileOpen string
  | FileWrite string
  | LockAcquire string
  | LockRelease string

fun is_lock_call :: "call \<Rightarrow> bool" where
  "is_lock_call (LockAcquire p) = True"
| "is_lock_call (LockRelease p) = True"
| "is_lock_call c = False"

text \<open>
  The attributes of an accessor object that the methods use. \<open>mm\<close> is \<open>self.mm\<close>:
  \<open>None\<close> or the mapping. \<open>calls\<close> is not an attribute: it records the calls the
  methods below have made so far, oldest first.
\<close>

record accessor =
  structType :: struct_type
  mmapFilePath :: string
  fastenerFilePath :: string
  editable :: bool
  mm :: "mmap_obj option"
  calls :: "call list"

definition called :: "call \<Rightarrow> accessor \<Rightarrow> accessor" where
  "called c self = self\<lparr>calls := calls self @ [c]\<rparr>"

text \<open>\<open>self.mm.seek(p)\<close>: on \<open>None\<close> there is no such attribute; a closed mapping refuses.\<close>

definition mm_seek :: "nat \<Rightarrow> accessor \<Rightarrow> (error + unit) \<times> accessor" where
  "mm_seek p self =
     (case mm self of
        None \<Rightarrow> (Inl (AttributeError ''seek''), self)
      | Some m \<Rightarrow>
          if closed m then (Inl ValueError, called (MmSeek p) self)
          else (Inr (), called (MmSeek p) (self\<lparr>mm := Some (m\<lparr>pos := p\<rparr>)\<rparr>)))"

text \<open>
  \<open>self.structType.from_buffer_copy(self.mm)\<close>: the first \<open>sizeof\<close> bytes of the
  mapping, copied, whatever the cursor; a shorter mapping is refused.
\<close>

definition from_buffer_copy :: "accessor \<Rightarrow> (error + byte list) \<times> accessor" where
  "from_buffer_copy self =
     (case mm self of
        None \<Rightarrow> (Inl TypeError, self)
      | Some m \<Rightarrow>
          if closed m then (Inl ValueError, called MmFromBufferCopy self)
          else if length (buf m) < sizeof (as_ctype (structType self))
          then (Inl ValueError, called MmFromBufferCopy self)
          else (Inr (take (sizeof (as_ctype (structType self))) (buf m)),
                called MmFromBufferCopy self))"

text \<open>
  \<open>self.structType.from_buffer(self.mm)\<close>: an instance that shares the memory of the
  mapping from offset 0; the mapping must be writable and long enough.
\<close>

definition from_buffer :: "accessor \<Rightarrow> (error + pyobj) \<times> accessor" where
  "from_buffer self =
     (case mm self of
        None \<Rightarrow> (Inl TypeError, self)
      | Some m \<Rightarrow>
          if closed m then (Inl ValueError, called MmFromBuffer self)
          else if \<not> writable m then (Inl TypeError, called MmFromBuffer self)
          else if length (buf m) < sizeof (as_ctype (structType self))
          then (Inl ValueError, called MmFromBuffer self)
          else (Inr (View (as_ctype (structType self)) 0), called MmFromBuffer self))"

text \<open>The bytes of the mapping, and their replacement after a write through an instance.\<close>

definition mapped :: "accessor \<Rightarrow> byte list" where
  "mapped self = (case mm self of None \<Rightarrow> [] | Some m \<Rightarrow> buf m)"

definition set_mapped :: "byte list \<Rightarrow> accessor \<Rightarrow> accessor" where
  "set_mapped bs self = self\<lparr>mm := map_option (\<lambda>m. m\<lparr>buf := bs\<rparr>) (mm self)\<rparr>"

section \<open>BaseStructMmapManager\<close>

text \<open>
  \<open>getLastUpdate\<close>: with a mapping, seek to 0, copy the structure out and return
  \<open>mmData.header.time_stamp\<close>; without one, return \<open>-1\<close>.
\<close>

definition getLastUpdate :: "python \<Rightarrow> accessor \<Rightarrow> (error + pyobj) \<times> accessor" where
  "getLastUpdate py self =
     (if mm self \<noteq> None then
        (case mm_seek 0 self of
           (Inl e, self1) \<Rightarrow> (Inl e, self1)
         | (Inr u, self1) \<Rightarrow>
             (case from_buffer_copy self1 of
                (Inl e, self2) \<Rightarrow> (Inl e, self2)
              | (Inr mmData, self2) \<Rightarrow>
                  (case getattrs py mmData (View (as_ctype (structType self2)) 0)
                          [''header'', ''time_stamp''] of
                     Inl e \<Rightarrow> (Inl e, self2)
                   | Inr val \<Rightarrow> (Inr (detach mmData val), self2))))
      else (Inr (Val (PyInt (- 1))), self))"

section \<open>DataStructMmapReader\<close>

text \<open>
  \<open>readData\<close>: no test of \<open>self.mm\<close>; seek to 0, copy the structure out, then one
  \<open>getattr\<close> for each segment of \<open>key.split('.')\<close>.
\<close>

definition readData :: "python \<Rightarrow> string \<Rightarrow> accessor \<Rightarrow> (error + pyobj) \<times> accessor" where
  "readData py key self =
     (case mm_seek 0 self of
        (Inl e, self1) \<Rightarrow> (Inl e, self1)
      | (Inr u, self1) \<Rightarrow>
          (case from_buffer_copy self1 of
             (Inl e, self2) \<Rightarrow> (Inl e, self2)
           | (Inr mmData, self2) \<Rightarrow>
               (case getattrs py mmData (View (as_ctype (structType self2)) 0)
                       (split_on CHR ''.'' key) of
                  Inl e \<Rightarrow> (Inl e, self2)
                | Inr val \<Rightarrow> (Inr (detach mmData val), self2))))"

definition readMappedBuffer :: "accessor \<Rightarrow> (error + pyobj) \<times> accessor" where
  "readMappedBuffer self =
     (if mm self \<noteq> None then
        (case mm_seek 0 self of
           (Inl e, self1) \<Rightarrow> (Inl e, self1)
         | (Inr u, self1) \<Rightarrow>
             (case from_buffer_copy self1 of
                (Inl e, self2) \<Rightarrow> (Inl e, self2)
              | (Inr mmData, self2) \<Rightarrow>
                  (Inr (Val (PyCData (as_ctype (structType self2)) mmData)), self2)))
      else (Inr PyNone, self))"

section \<open>DataStructMmapEditor\<close>

text \<open>
  \<open>updateLastUpdate\<close>: with a mapping, \<open>mmData.header.time_stamp = time.time()\<close> on
  an instance that shares the mapping; \<open>now\<close> is what \<open>time.time()\<close> returns.
\<close>

definition updateLastUpdate ::
  "python \<Rightarrow> 64 word \<Rightarrow> accessor \<Rightarrow> (error + unit) \<times> accessor" where
  "updateLastUpdate py now self =
     (if mm self \<noteq> None then
        (case mm_seek 0 self of
           (Inl e, self1) \<Rightarrow> (Inl e, self1)
         | (Inr u, self1) \<Rightarrow>
             (case from_buffer self1 of
                (Inl e, self2) \<Rightarrow> (Inl e, self2)
              | (Inr mmData, self2) \<Rightarrow>
                  (case py_getattr py (mapped self2) mmData ''header'' of
                     Inl e \<Rightarrow> (Inl e, self2)
                   | Inr header \<Rightarrow>
                       (case py_setattr py (mapped self2) header ''time_stamp'' (PyFloat now) of
                          Inl e \<Rightarrow> (Inl e, self2)
                        | Inr bs \<Rightarrow> (Inr (), set_mapped bs self2)))))
      else (Inr (), self))"

text \<open>
  \<open>writeData\<close>: with a mapping, \<open>getattr\<close> along all segments but the last, then
  \<open>setattr\<close> of the last; without one, nothing.
\<close>

definition writeData ::
  "python \<Rightarrow> string \<Rightarrow> pyval \<Rightarrow> accessor \<Rightarrow> (error + unit) \<times> accessor" where
  "writeData py key v self =
     (if mm self \<noteq> None then
        (case mm_seek 0 self of
           (Inl e, self1) \<Rightarrow> (Inl e, self1)
         | (Inr u, self1) \<Rightarrow>
             (case from_buffer self1 of
                (Inl e, self2) \<Rightarrow> (Inl e, self2)
              | (Inr mmData, self2) \<Rightarrow>
                  (let keyList = split_on CHR ''.'' key
                   in case getattrs py (mapped self2) mmData (butlast keyList) of
                        Inl e \<Rightarrow> (Inl e, self2)
                      | Inr attr \<Rightarrow>
                          (case py_setattr py (mapped self2) attr (last keyList) v of
                             Inl e \<Rightarrow> (Inl e, self2)
                           | Inr bs \<Rightarrow> (Inr (), set_mapped bs self2)))))
      else (Inr (), self))"

definition referMappedBuffer :: "accessor \<Rightarrow> (error + pyobj) \<times> accessor" where
  "referMappedBuffer self =
     (if mm self \<noteq> None then
        (case mm_seek 0 self of
           (Inl e, self1) \<Rightarrow> (Inl e, self1)
         | (Inr u, self1) \<Rightarrow> from_buffer self1)
      else (Inr PyNone, self))"

text \<open>
  \<open>clearMappedBuffer\<close>: \<open>memset\<close> of \<open>sizeof(mmData)\<close> zero bytes from the start of
  the mapping.
\<close>

definition clearMappedBuffer :: "accessor \<Rightarrow> (error + unit) \<times> accessor" where
  "clearMappedBuffer self =
     (if mm self \<noteq> None then
        (case mm_seek 0 self of
           (Inl e, self1) \<Rightarrow> (Inl e, self1)
         | (Inr u, self1) \<Rightarrow>
             (case from_buffer self1 of
                (Inl e, self2) \<Rightarrow> (Inl e, self2)
              | (Inr mmData, self2) \<Rightarrow>
                  (Inr (),
                   called MmMemset
                     (set_mapped
                        (store 0 (replicate (sizeof (as_ctype (structType self2))) 0)
                           (mapped self2))
                        self2))))
      else (Inr (), self))"

section \<open>Files, the registry and the constructors\<close>

text \<open>
  The file system as the constructor of the Manager sees it: the content of the files
  that exist, the paths that cannot be opened for writing (permission denied, missing
  directory), the paths that cannot even be examined (a directory without search
  permission), and how many bytes a file can take before a write to it is refused (disk
  full, file size limit; \<open>None\<close>: no limit).
\<close>

record filesystem =
  files :: "string \<Rightarrow> byte list option"
  unwritable :: "string \<Rightarrow> bool"
  unsearchable :: "string \<Rightarrow> bool"
  write_limit :: "nat option"

text \<open>\<open>open(path, "wb")\<close>: refused, or the file exists and is empty.\<close>

definition open_wb :: "filesystem \<Rightarrow> string \<Rightarrow> error + filesystem" where
  "open_wb fs path =
     (if unwritable fs path then Inl OSError
      else Inr (fs\<lparr>files := (files fs)(path := Some [])\<rparr>))"

text \<open>
  \<open>fs.write(data)\<close> on the file just opened, up to the end of the \<open>with\<close> block: all
  the bytes, or an error that leaves in the file the bytes written before it.
\<close>

definition file_write ::
  "filesystem \<Rightarrow> string \<Rightarrow> byte list \<Rightarrow> (error + unit) \<times> filesystem" where
  "file_write fs path bs =
     (case write_limit fs of
        None \<Rightarrow> (Inr (), fs\<lparr>files := (files fs)(path := Some bs)\<rparr>)
      | Some n \<Rightarrow>
          if n < length bs then (Inl OSError, fs\<lparr>files := (files fs)(path := Some (take n bs))\<rparr>)
          else (Inr (), fs\<lparr>files := (files fs)(path := Some bs)\<rparr>))"

text \<open>\<open>path.exists()\<close>: raises where the path cannot be examined.\<close>

definition path_exists :: "filesystem \<Rightarrow> string \<Rightarrow> error + bool" where
  "path_exists fs path =
     (if unsearchable fs path then Inl OSError else Inr (files fs path \<noteq> None))"

text \<open>The bytes an object gives to \<open>write\<close>; an int, a bool or a float has none (TypeError).\<close>

fun buffer_of :: "pyval \<Rightarrow> byte list option" where
  "buffer_of (PyBytes b) = Some b"
| "buffer_of (PyCData t b) = Some b"
| "buffer_of (PyInt i) = None"
| "buffer_of (PyBool b) = None"
| "buffer_of (PyFloat w) = None"

text \<open>
  The parts of the package this module imports: the subclasses of
  \<open>BaseMmapStructure\<close> in the order \<open>__subclasses__()\<close> lists them, the header
  structure, what the constructor of \<open>AbstractMmapManger\<close> leaves in \<open>self.mm\<close> (or
  the exception it raises), \<open>_getUseFDir\<close>, the two default directories, and the path
  arithmetic \<open>(dir / fileName).with_suffix(suffix).resolve()\<close>.
\<close>

record package =
  subclasses :: "struct_type list"
  MmapStructureHeader :: struct_type
  AbstractMmapManger_init :: "string option \<Rightarrow> string option \<Rightarrow> error + mmap_obj option"
  getUseFDir :: "string \<Rightarrow> string option \<Rightarrow> error + string"
  DEFAULT_MMAP_FILE_DIR :: string
  DEFAULT_FASTENERS_FILE_DIR :: string
  file_path :: "string \<Rightarrow> string \<Rightarrow> string \<Rightarrow> error + string"

text \<open>\<open>_searchStructType\<close>: the first subclass whose name is \<open>structName\<close>.\<close>

fun searchStructType :: "struct_type list \<Rightarrow> string \<Rightarrow> error + struct_type" where
  "searchStructType [] structName = Inl (StructNotFoundIpMmapError structName)"
| "searchStructType (st # sts) structName =
     (if structName = class_name st then Inr st else searchStructType sts structName)"

text \<open>
  The constructors. \<open>editable\<close> is assigned by the subclasses only; the record holds
  \<open>False\<close> until then. A new accessor has made no call yet.
\<close>

definition BaseStructMmapManager_init ::
  "package \<Rightarrow> string \<Rightarrow> string \<Rightarrow> string option \<Rightarrow> string option \<Rightarrow> error + accessor" where
  "BaseStructMmapManager_init pkg structName tag mmapDir fastenerDir =
     (case AbstractMmapManger_init pkg mmapDir fastenerDir of
        Inl e \<Rightarrow> Inl e
      | Inr m \<Rightarrow>
     (case searchStructType (subclasses pkg) structName of
        Inl e \<Rightarrow> Inl e
      | Inr st \<Rightarrow>
     (let fileName = class_name st @ ''_'' @ tag in
     (case getUseFDir pkg (DEFAULT_MMAP_FILE_DIR pkg) mmapDir of
        Inl e \<Rightarrow> Inl e
      | Inr d1 \<Rightarrow>
     (case file_path pkg d1 fileName ''.mmap'' of
        Inl e \<Rightarrow> Inl e
      | Inr p1 \<Rightarrow>
     (case getUseFDir pkg (DEFAULT_FASTENERS_FILE_DIR pkg) fastenerDir of
        Inl e \<Rightarrow> Inl e
      | Inr d2 \<Rightarrow>
     (case file_path pkg d2 fileName ''.lockfile'' of
        Inl e \<Rightarrow> Inl e
      | Inr p2 \<Rightarrow>
          Inr \<lparr>structType = st, mmapFilePath = p1, fastenerFilePath = p2,
               editable = False, mm = m, calls = []\<rparr>)))))))"

definition DataStructMmapReader_init ::
  "package \<Rightarrow> string \<Rightarrow> string \<Rightarrow> string option \<Rightarrow> string option \<Rightarrow> error + accessor" where
  "DataStructMmapReader_init pkg structName tag mmapDir fastenerDir =
     (case BaseStructMmapManager_init pkg structName tag mmapDir fastenerDir of
        Inl e \<Rightarrow> Inl e
      | Inr self \<Rightarrow> Inr (self\<lparr>editable := False\<rparr>))"

definition DataStructMmapEditor_init ::
  "package \<Rightarrow> string \<Rightarrow> string \<Rightarrow> string option \<Rightarrow> string option \<Rightarrow> error + accessor" where
  "DataStructMmapEditor_init pkg structName tag mmapDir fastenerDir =
     (case DataStructMmapReader_init pkg structName tag mmapDir fastenerDir of
        Inl e \<Rightarrow> Inl e
      | Inr self \<Rightarrow> Inr (self\<lparr>editable := True\<rparr>))"

text \<open>
  A ctypes structure built from positional arguments: zeroed memory, then one
  \<open>setattr\<close> for each argument under the name of the field at its position.
\<close>

fun init_fields ::
  "python \<Rightarrow> ctype \<Rightarrow> byte list \<Rightarrow> (string \<times> pyval) list \<Rightarrow> error + byte list" where
  "init_fields py t bs [] = Inr bs"
| "init_fields py t bs (kv # kvs) =
     (case py_setattr py bs (View t 0) (fst kv) (snd kv) of
        Inl e \<Rightarrow> Inl e
      | Inr bs' \<Rightarrow> init_fields py t bs' kvs)"

definition struct_new :: "python \<Rightarrow> struct_type \<Rightarrow> pyval list \<Rightarrow> error + pyval" where
  "struct_new py st args =
     (if length (fst (snd st)) < length args then Inl TypeError
      else (case init_fields py (as_ctype st) (replicate (snd (snd st)) 0)
                   (zip (map fst (fst (snd st))) args) of
              Inl e \<Rightarrow> Inl e
            | Inr bs \<Rightarrow> Inr (PyCData (as_ctype st) bs)))"

text \<open>
  \<open>_generateStruct\<close>:
  \<^verbatim>\<open>self.structType(base_struct.MmapStructureHeader(0x1128, time.time()))\<close>.
\<close>

definition generateStruct :: "python \<Rightarrow> package \<Rightarrow> 64 word \<Rightarrow> accessor \<Rightarrow> error + pyval" where
  "generateStruct py pkg now self =
     (case struct_new py (MmapStructureHeader pkg) [PyInt 0x1128, PyFloat now] of
        Inl e \<Rightarrow> Inl e
      | Inr header \<Rightarrow> struct_new py (structType self) [header])"

text \<open>
  \<open>_createNewMmapFile\<close>: open for writing and write the structure; whatever
  exception that raises is caught and dropped, and the method returns \<open>None\<close>.
\<close>

definition createNewMmapFile ::
  "filesystem \<Rightarrow> accessor \<Rightarrow> pyval \<Rightarrow> (error + unit) \<times> accessor \<times> filesystem" where
  "createNewMmapFile fs self dataStruct =
     (let self1 = called (FileOpen (mmapFilePath self)) self
      in case open_wb fs (mmapFilePath self) of
           Inl e \<Rightarrow> (Inr (), self1, fs)
         | Inr fs1 \<Rightarrow>
             (let self2 = called (FileWrite (mmapFilePath self)) self1
              in case buffer_of dataStruct of
                   None \<Rightarrow> (Inr (), self2, fs1)
                 | Some bs \<Rightarrow>
                     (case file_write fs1 (mmapFilePath self) bs of
                        (Inl e, fs2) \<Rightarrow> (Inr (), self2, fs2)
                      | (Inr u, fs2) \<Rightarrow> (Inr (), self2, fs2))))"

text \<open>
  The test \<^verbatim>\<open>force or (not self.mmapFilePath.exists())\<close>: with \<open>force\<close> the path is
  not examined.
\<close>

definition must_create :: "filesystem \<Rightarrow> accessor \<Rightarrow> bool \<Rightarrow> error + bool" where
  "must_create fs self force =
     (if force then Inr True
      else (case path_exists fs (mmapFilePath self) of
              Inl e \<Rightarrow> Inl e
            | Inr found \<Rightarrow> Inr (\<not> found)))"

text \<open>
  The constructor of the Manager; \<open>now\<close> is what \<open>time.time()\<close> returns if
  \<open>_generateStruct\<close> is reached.
\<close>

definition DataStructMmapManager_init ::
  "python \<Rightarrow> package \<Rightarrow> 64 word \<Rightarrow> filesystem \<Rightarrow> string \<Rightarrow> string \<Rightarrow> string option \<Rightarrow>
     string option \<Rightarrow> bool \<Rightarrow> bool \<Rightarrow> (error + accessor) \<times> filesystem" where
  "DataStructMmapManager_init py pkg now fs structName tag mmapDir fastenerDir create force =
     (case DataStructMmapEditor_init pkg structName tag mmapDir fastenerDir of
        Inl e \<Rightarrow> (Inl e, fs)
      | Inr self0 \<Rightarrow>
          (let self = self0\<lparr>editable := True\<rparr>
           in if create then
                (case must_create fs self force of
                   Inl e \<Rightarrow> (Inl e, fs)
                 | Inr True \<Rightarrow>
                     (case generateStruct py pkg now self of
                        Inl e \<Rightarrow> (Inl e, fs)
                      | Inr dataStruct \<Rightarrow>
                          (case createNewMmapFile fs self dataStruct of
                             (Inl e, self', fs') \<Rightarrow> (Inl e, fs')
                           | (Inr u, self', fs') \<Rightarrow> (Inr self', fs')))
                 | Inr False \<Rightarrow> (Inr self, fs))
              else (Inr self, fs)))"

section \<open>Notions of the specification\<close>

text \<open>
  The path resolution of the specification (its section 4.3), on the same layouts: walk
  the segments from a type at an offset; a segment that is no field of the structure
  reached is a \<open>FieldNotFoundError\<close> naming it; a segment asked of a leaf is a
  \<open>NotNavigableError\<close> (here naming the segment that could not be entered); otherwise
  the offset and the type of the field the path denotes.
\<close>

fun spec_resolve :: "ctype \<Rightarrow> nat \<Rightarrow> string list \<Rightarrow> error + nat \<times> ctype" where
  "spec_resolve t off [] = Inr (off, t)"
| "spec_resolve t off (k # ks) =
     (case t of
        CStruct nm fs sz \<Rightarrow>
          (case field_of t k of
             None \<Rightarrow> Inl (FieldNotFoundError k)
           | Some f \<Rightarrow> spec_resolve (snd f) (off + fst f) ks)
      | _ \<Rightarrow> Inl (NotNavigableError k))"

text \<open>
  A leaf reads as a Python value; a structure or an array reads as a ctypes instance.
\<close>

fun is_leaf :: "ctype \<Rightarrow> bool" where
  "is_leaf (CStruct nm fs sz) = False"
| "is_leaf (CArray t n) = False"
| "is_leaf t = True"

fun is_struct :: "ctype \<Rightarrow> bool" where
  "is_struct (CStruct nm fs sz) = True"
| "is_struct t = False"


text \<open>
  The values a field type represents exactly: the integers of its range; every float
  for a \<open>c_double\<close>; for a \<open>c_float\<close> the floats that narrowing to single precision
  and widening again gives back; the two truth values; one byte for a \<open>c_char\<close>; the
  NUL-free byte strings that fit a \<open>c_char\<close> array; the instances of an array or
  structure type.
\<close>

fun representable :: "ctype \<Rightarrow> pyval \<Rightarrow> bool" where
  "representable (CInt n sg) (PyInt i) =
     (if sg then - (2 ^ (8 * n - 1)) \<le> i \<and> i < 2 ^ (8 * n - 1) else 0 \<le> i \<and> i < 2 ^ (8 * n))"
| "representable CDouble (PyFloat w) = True"
| "representable CFloat (PyFloat w) = (float_widen (float_narrow w) = w)"
| "representable CBool (PyBool b) = True"
| "representable CChar (PyBytes b) = (length b = 1)"
| "representable (CCharArray n) (PyBytes b) = (length b \<le> n \<and> 0 \<notin> set b)"
| "representable (CArray t n) (PyCData t' bs) = (t' = CArray t n \<and> length bs = n * sizeof t)"
| "representable (CStruct nm fs sz) (PyCData t bs) = (t = CStruct nm fs sz \<and> length bs = sz)"
| "representable t v = False"

text \<open>
  An open store: the accessor holds a mapping that is not closed and is at least as
  long as the layout of its structure type, and the layout is one ctypes builds. The
  Editor's operations need it mapped writable.
\<close>

definition open_store :: "accessor \<Rightarrow> bool" where
  "open_store self =
     (case mm self of
        None \<Rightarrow> False
      | Some m \<Rightarrow>
          \<not> closed m \<and> sizeof (as_ctype (structType self)) \<le> length (buf m) \<and>
          wf_ctype (as_ctype (structType self)))"

definition open_store_rw :: "accessor \<Rightarrow> bool" where
  "open_store_rw self = (open_store self \<and> (case mm self of None \<Rightarrow> False | Some m \<Rightarrow> writable m))"

text \<open>The same accessor with the cursor of its mapping, if it has one, left at \<open>p\<close>.\<close>

definition with_cursor :: "nat \<Rightarrow> accessor \<Rightarrow> accessor" where
  "with_cursor p self = self\<lparr>mm := map_option (\<lambda>m. m\<lparr>pos := p\<rparr>) (mm self)\<rparr>"

definition cursor :: "accessor \<Rightarrow> nat option" where
  "cursor self = map_option pos (mm self)"

text \<open>
  A method does not depend on the cursor: started with the cursor anywhere it returns
  what it returns from the same accessor, and on a mapping that is not closed it leaves
  the same accessor behind, cursor at 0, its first call being the seek to 0.
\<close>

definition cursor_independent :: "(accessor \<Rightarrow> 'a \<times> accessor) \<Rightarrow> bool" where
  "cursor_independent method =
     (\<forall>p self.
        fst (method (with_cursor p self)) = fst (method self) \<and>
        (\<forall>m. mm self = Some m \<and> \<not> closed m \<longrightarrow>
           snd (method (with_cursor p self)) = snd (method self) \<and>
           cursor (snd (method self)) = Some 0 \<and>
           take (Suc (length (calls self))) (calls (snd (method self))) =
             calls self @ [MmSeek 0]))"

text \<open>A method makes no call on the advisory lock: what it adds to the calls has none.\<close>

definition lock_free :: "(accessor \<Rightarrow> 'a \<times> accessor) \<Rightarrow> bool" where
  "lock_free method =
     (\<forall>self. take (length (calls self)) (calls (snd (method self))) = calls self \<and>
             list_all (\<lambda>c. \<not> is_lock_call c)
               (drop (length (calls self)) (calls (snd (method self)))))"

section \<open>An example store\<close>

text \<open>
  A little-endian host on which the names used below are attributes of no object other
  than the declared fields, assigning an undeclared attribute to an instance is
  accepted, and no class has a subclass. No example offers an int to a floating-point
  field; of that conversion only zero is given.
\<close>

definition host :: python where
  "host = \<lparr>big_endian = False,
           float_of_int = (\<lambda>i. if i = 0 then Some 0 else None),
           attr_of = (\<lambda>obj k. None),
           setattr_error = (\<lambda>obj k v. None),
           subclass_of = (\<lambda>t' t. False)\<rparr>"

text \<open>
  A packed header and the structure of the specification's example:
  \<open>Telemetry { header; speed: float; label: 3 bytes }\<close>, of
  \<open>sizeof(Header) + 4 + 3\<close> bytes; in the mapping the speed is 42.5 and the label
  \<open>car\<close>.
\<close>

definition Header :: struct_type where
  "Header = (''MmapStructureHeader'',
             [(''magic'', 0, CInt 2 False), (''time_stamp'', 2, CDouble)], 10)"

definition Telemetry :: struct_type where
  "Telemetry = (''Telemetry'',
                [(''header'', 0, as_ctype Header), (''speed'', 10, CFloat),
                 (''label'', 14, CCharArray 3)], 17)"

definition telemetry_bytes :: "byte list" where
  "telemetry_bytes =
     [0x28, 0x11, 1, 2, 3, 4, 5, 6, 7, 8, 0, 0, 0x2A, 0x42, 0x63, 0x61, 0x72]"

definition telemetry_editor :: accessor where
  "telemetry_editor =
     \<lparr>structType = Telemetry, mmapFilePath = ''/mmap/Telemetry_car1.mmap'',
      fastenerFilePath = ''/lock/Telemetry_car1.lockfile'', editable = True,
      mm = Some \<lparr>buf = telemetry_bytes, pos = 7, closed = False, writable = True\<rparr>,
      calls = []\<rparr>"

definition telemetry_unopened :: accessor where
  "telemetry_unopened = telemetry_editor\<lparr>mm := None\<rparr>"

text \<open>The same accessor on a backing file that is four bytes longer than the layout.\<close>

definition telemetry_long :: accessor where
  "telemetry_long =
     telemetry_editor
       \<lparr>mm := Some \<lparr>buf = telemetry_bytes @ [9, 9, 9, 9], pos = 0, closed = False,
                    writable = True\<rparr>\<rparr>"

definition example_package :: package where
  "example_package =
     \<lparr>subclasses = [Telemetry], MmapStructureHeader = Header,
      AbstractMmapManger_init = (\<lambda>mmapDir fastenerDir. Inr None),
      getUseFDir = (\<lambda>d dir. Inr (case dir of None \<Rightarrow> d | Some d' \<Rightarrow> d')),
      DEFAULT_MMAP_FILE_DIR = ''/mmap'', DEFAULT_FASTENERS_FILE_DIR = ''/lock'',
      file_path = (\<lambda>d f sfx. Inr (d @ ''/'' @ f @ sfx))\<rparr>"

definition empty_disk :: filesystem where
  "empty_disk = \<lparr>files = (\<lambda>p. None), unwritable = (\<lambda>p. False), unsearchable = (\<lambda>p. False),
                 write_limit = None\<rparr>"

definition readonly_disk :: filesystem where
  "readonly_disk = \<lparr>files = (\<lambda>p. None), unwritable = (\<lambda>p. True), unsearchable = (\<lambda>p. False),
                    write_limit = None\<rparr>"

text \<open>
  A disk on which the backing file of the example exists, and one on which a file takes
  ten bytes.
\<close>

definition telemetry_disk :: filesystem where
  "telemetry_disk =
     \<lparr>files = (\<lambda>p. if p = ''/mmap/Telemetry_car1.mmap'' then Some telemetry_bytes else None),
      unwritable = (\<lambda>p. False), unsearchable = (\<lambda>p. False), write_limit = None\<rparr>"

definition full_disk :: filesystem where
  "full_disk = \<lparr>files = (\<lambda>p. None), unwritable = (\<lambda>p. False), unsearchable = (\<lambda>p. False),
                write_limit = Some 10\<rparr>"


definition locked_disk :: filesystem where
  "locked_disk = \<lparr>files = (\<lambda>p. None), unwritable = (\<lambda>p. False), unsearchable = (\<lambda>p. True),
                  write_limit = None\<rparr>"


section \<open>Properties\<close>

subsection \<open>Bytes, layouts and attribute navigation\<close>


lemma length_encode_le: "length (encode_le n x) = n"
  by (induction n arbitrary: x) auto

lemma unat_byte_of_nat: "unat (of_nat (x mod 256) :: byte) = x mod 256"
  by (simp add: unat_of_nat)

lemma decode_encode_le: "decode_le (encode_le n x) = x mod 256 ^ n"
proof (induction n arbitrary: x)
  case 0
  then show ?case by simp
next
  case (Suc n)
  have "x mod 256 + 256 * (x div 256 mod 256 ^ n) = x mod (256 * 256 ^ n)"
    by (simp add: mod_mult2_eq)
  with Suc show ?case by (simp add: unat_byte_of_nat)
qed

lemma byte_order_twice: "byte_order py (byte_order py bs) = bs"
  by (simp add: byte_order_def)

lemma length_byte_order: "length (byte_order py bs) = length bs"
  by (simp add: byte_order_def)

lemma slice_store: "off + length bs \<le> length mem \<Longrightarrow> slice off (length bs) (store off bs mem) = bs"
  by (simp add: slice_def store_def)

lemma length_store: "off + length bs \<le> length mem \<Longrightarrow> length (store off bs mem) = length mem"
  by (simp add: store_def)

lemma slice_take: "off + n \<le> sz \<Longrightarrow> slice off n (take sz mem) = slice off n mem"
  by (simp add: slice_def take_drop min_def) 

lemma field_of_wf:
  assumes "wf_ctype t" and "field_of t k = Some f"
  shows "fst f + sizeof (snd f) \<le> sizeof t \<and> wf_ctype (snd f)"
proof (cases t)
  case (CStruct nm fs sz)
  with assms(2) have "(k, f) \<in> set fs"
    by (auto simp: field_of_def dest: map_of_SomeD)
  with assms(1) CStruct show ?thesis
    by (auto simp: list_all_iff)
qed (use assms in \<open>simp_all add: field_of_def\<close>)

lemma spec_resolve_bounds:
  "wf_ctype t \<Longrightarrow> spec_resolve t off ks = Inr (off', t') \<Longrightarrow>
     off \<le> off' \<and> off' + sizeof t' \<le> off + sizeof t \<and> wf_ctype t'"
proof (induction ks arbitrary: t off)
  case Nil
  then show ?case by simp
next
  case (Cons k ks)
  then obtain nm fs sz where t: "t = CStruct nm fs sz"
    by (cases t) auto
  with Cons.prems obtain f where f: "field_of t k = Some f"
    and r: "spec_resolve (snd f) (off + fst f) ks = Inr (off', t')"
    by (auto split: option.splits)
  from field_of_wf [OF Cons.prems(1) f]
  have b: "fst f + sizeof (snd f) \<le> sizeof t" and w: "wf_ctype (snd f)" by auto
  from Cons.IH [OF w r] b show ?case by simp
qed

lemma getattrs_resolved:
  "spec_resolve t off ks = Inr (off', t') \<Longrightarrow>
     getattrs py mem (field_get py mem off t) ks = Inr (field_get py mem off' t')"
proof (induction ks arbitrary: t off)
  case Nil
  then show ?case by simp
next
  case (Cons k ks)
  then obtain nm fs sz where t: "t = CStruct nm fs sz"
    by (cases t) auto
  with Cons.prems obtain f where f: "field_of t k = Some f"
    and r: "spec_resolve (snd f) (off + fst f) ks = Inr (off', t')"
    by (auto split: option.splits)
  from f t have "py_getattr py mem (View t off) k = Inr (field_get py mem (off + fst f) (snd f))"
    by (simp add: py_getattr_def split: prod.splits)
  with Cons.IH [OF r] t show ?case by simp
qed

lemma field_of_not_struct: "\<not> is_struct t \<Longrightarrow> field_of t k = None"
  by (cases t) (simp_all add: field_of_def)







subsection \<open>Writes without a mapping\<close>

text \<open>
  C10. On an Editor whose \<open>self.mm\<close> is \<open>None\<close>, \<open>writeData\<close> returns \<open>None\<close> for
  every key and value, raises nothing and leaves the accessor exactly as it was (its
  mapping, and with it the backing file, included); \<open>updateLastUpdate\<close> and
  \<open>clearMappedBuffer\<close> do the same.
\<close>

theorem writes_without_mapping_dropped:
  "mm self = None \<Longrightarrow>
     writeData py key v self = (Inr (), self) \<and>
     updateLastUpdate py now self = (Inr (), self) \<and>
     clearMappedBuffer self = (Inr (), self)"
  by (simp add: writeData_def updateLastUpdate_def clearMappedBuffer_def)

theorem writes_without_mapping_dropped_witness:
  "mm telemetry_unopened = None \<and>
   writeData host ''speed'' (PyFloat 1) telemetry_unopened = (Inr (), telemetry_unopened) \<and>
   updateLastUpdate host 2 telemetry_unopened = (Inr (), telemetry_unopened) \<and>
   clearMappedBuffer telemetry_unopened = (Inr (), telemetry_unopened)"
  using writes_without_mapping_dropped [of telemetry_unopened host "''speed''" "PyFloat 1" 2]
  by (simp add: telemetry_unopened_def)

subsection \<open>Resolving the structure name\<close>






lemma createNewMmapFile_attrs:
  "createNewMmapFile fs self d = (r, self', fs') \<Longrightarrow>
     r = Inr () \<and> structType self' = structType self \<and> mmapFilePath self' = mmapFilePath self \<and>
     mm self' = mm self"
  by (auto simp: createNewMmapFile_def Let_def called_def
      split: sum.splits option.splits prod.splits)



lemmas example_defs = host_def Header_def Telemetry_def telemetry_bytes_def telemetry_editor_def
  telemetry_unopened_def telemetry_long_def example_package_def empty_disk_def readonly_disk_def
  telemetry_disk_def full_disk_def locked_disk_def as_ctype_def class_name_def

lemmas init_defs = BaseStructMmapManager_init_def DataStructMmapReader_init_def
  DataStructMmapEditor_init_def DataStructMmapManager_init_def



subsection \<open>The outcome of building the default structure does not depend on the time\<close>

lemma length_float_to_bytes: "length (float_to_bytes py w) = 8"
  by (simp add: float_to_bytes_def length_byte_order length_encode_le)

lemma length_store_any:
  "length (store off bs b) = min (length b) off + (length bs + (length b - (off + length bs)))"
  by (simp add: store_def)

lemma length_single_to_bytes: "length (single_to_bytes py w) = 4"
  by (simp add: single_to_bytes_def length_byte_order length_encode_le)

lemma as_double_float: "as_double py (PyFloat w) = Inr w"
  by (simp add: as_double_def)

lemma as_double_cdata: "as_double py (PyCData t bs) = Inl TypeError"
  by (simp add: as_double_def)

lemma field_set_shape_same:
  assumes "length b2 = length b1"
  shows "(case field_set py b1 off t v of
            Inl e \<Rightarrow> field_set py b2 off t v = Inl e
          | Inr r1 \<Rightarrow> (\<exists>r2. field_set py b2 off t v = Inr r2 \<and> length r2 = length r1))"
  using assms
  by (cases t; cases v)
    (simp_all add: length_store_any Let_def split: option.splits sum.splits)

lemma field_set_shape_float:
  assumes "length b2 = length b1"
  shows "(case field_set py b1 off t (PyFloat w1) of
            Inl e \<Rightarrow> field_set py b2 off t (PyFloat w2) = Inl e
          | Inr r1 \<Rightarrow> (\<exists>r2. field_set py b2 off t (PyFloat w2) = Inr r2 \<and> length r2 = length r1))"
  using assms
  by (cases t)
    (simp_all add: length_store_any length_float_to_bytes length_single_to_bytes as_double_float)

lemma field_set_shape_cdata:
  assumes "length b2 = length b1" and "length bs2 = length bs1"
  shows "(case field_set py b1 off t (PyCData t' bs1) of
            Inl e \<Rightarrow> field_set py b2 off t (PyCData t' bs2) = Inl e
          | Inr r1 \<Rightarrow> (\<exists>r2. field_set py b2 off t (PyCData t' bs2) = Inr r2 \<and> length r2 = length r1))"
  using assms
  by (cases t) (simp_all add: length_store_any as_double_cdata)

lemma field_of_declared:
  "k \<in> fst ` set fs \<Longrightarrow> \<exists>f. field_of (CStruct nm fs sz) k = Some f"
proof -
  assume "k \<in> fst ` set fs"
  then have "k \<in> fst ` set (rev fs)" by simp
  then have "map_of (rev fs) k \<noteq> None"
    by (simp only: map_of_eq_None_iff not_not)
  then show ?thesis by (auto simp: field_of_def)
qed

lemma py_setattr_field:
  "field_of t k = Some f \<Longrightarrow>
     py_setattr py b (View t off) k v = field_set py b (off + fst f) (snd f) v"
  by (simp add: py_setattr_def split: prod.splits)

lemma struct_new_cdata_shape:
  assumes "length bs2 = length bs1"
  shows "(case struct_new py st [PyCData t bs1] of
            Inl e \<Rightarrow> struct_new py st [PyCData t bs2] = Inl e
          | Inr d \<Rightarrow> (\<exists>d'. struct_new py st [PyCData t bs2] = Inr d'))"
proof (cases "fst (snd st)")
  case Nil
  then show ?thesis by (simp add: struct_new_def)
next
  case (Cons f1 fs)
  then obtain f where f: "field_of (as_ctype st) (fst f1) = Some f"
    using field_of_declared [of "fst f1" "fst (snd st)" "fst st" "snd (snd st)"]
    by (auto simp: as_ctype_def)
  let ?z = "replicate (snd (snd st)) 0 :: byte list"
  from field_set_shape_cdata [OF refl assms, where py = py and ?b1.0 = ?z and off = "fst f"
      and t = "snd f" and t' = t]
  show ?thesis
    by (auto simp: struct_new_def Cons py_setattr_field [OF f] split: sum.splits)
qed

lemma struct_new_header_shape:
  "(case struct_new py st [PyInt c, PyFloat wa] of
      Inl e \<Rightarrow> struct_new py st [PyInt c, PyFloat wb] = Inl e
    | Inr h1 \<Rightarrow>
        (\<exists>bs1 bs2. h1 = PyCData (as_ctype st) bs1 \<and>
           struct_new py st [PyInt c, PyFloat wb] = Inr (PyCData (as_ctype st) bs2) \<and>
           length bs2 = length bs1))"
proof (cases "fst (snd st)")
  case Nil
  then show ?thesis by (simp add: struct_new_def)
next
  case (Cons f1 fs)
  note c1 = Cons
  show ?thesis
  proof (cases fs)
    case Nil
    with c1 show ?thesis by (simp add: struct_new_def)
  next
    case (Cons f2 fs')
    from c1 Cons obtain g1 where g1: "field_of (as_ctype st) (fst f1) = Some g1"
      using field_of_declared [of "fst f1" "fst (snd st)" "fst st" "snd (snd st)"]
      by (auto simp: as_ctype_def)
    from c1 Cons obtain g2 where g2: "field_of (as_ctype st) (fst f2) = Some g2"
      using field_of_declared [of "fst f2" "fst (snd st)" "fst st" "snd (snd st)"]
      by (auto simp: as_ctype_def)
    let ?z = "replicate (snd (snd st)) 0 :: byte list"
    show ?thesis
    proof (cases "field_set py ?z (fst g1) (snd g1) (PyInt c)")
      case (Inl e)
      with c1 Cons show ?thesis
        by (simp add: struct_new_def py_setattr_field [OF g1])
    next
      case (Inr r)
      from field_set_shape_float [OF refl, where py = py and ?b1.0 = r and off = "fst g2" and t = "snd g2"
          and ?w1.0 = wa and ?w2.0 = wb]
      show ?thesis
        using c1 Cons Inr
        by (auto simp: struct_new_def py_setattr_field [OF g1] py_setattr_field [OF g2]
            split: sum.splits)
    qed
  qed
qed

lemma generateStruct_shape:
  "(case generateStruct py pkg now self of
      Inl e \<Rightarrow> generateStruct py pkg now' self = Inl e
    | Inr d \<Rightarrow> (\<exists>d'. generateStruct py pkg now' self = Inr d'))"
proof (cases "struct_new py (MmapStructureHeader pkg) [PyInt 0x1128, PyFloat now]")
  case (Inl e)
  with struct_new_header_shape [where py = py and st = "MmapStructureHeader pkg" and c = "0x1128"
      and wa = now and wb = now']
  show ?thesis by (simp add: generateStruct_def)
next
  case (Inr h)
  with struct_new_header_shape [where py = py and st = "MmapStructureHeader pkg" and c = "0x1128"
      and wa = now and wb = now']
  obtain bs1 bs2 where h: "h = PyCData (as_ctype (MmapStructureHeader pkg)) bs1"
    and h2: "struct_new py (MmapStructureHeader pkg) [PyInt 0x1128, PyFloat now'] =
               Inr (PyCData (as_ctype (MmapStructureHeader pkg)) bs2)"
    and l: "length bs2 = length bs1"
    by auto
  from struct_new_cdata_shape [OF l, where py = py and st = "structType self"
      and t = "as_ctype (MmapStructureHeader pkg)"]
  show ?thesis
    using Inr h h2 by (auto simp: generateStruct_def split: sum.splits)
qed

subsection \<open>Creating the backing file\<close>

lemma createNewMmapFile_returns:
  "fst (createNewMmapFile fs self d) = Inr ()"
  by (auto simp: createNewMmapFile_def Let_def split: sum.splits option.splits prod.splits)

lemma createNewMmapFile_refused:
  "unwritable fs (mmapFilePath self) \<Longrightarrow> snd (snd (createNewMmapFile fs self d)) = fs"
  by (simp add: createNewMmapFile_def Let_def open_wb_def)

lemma createNewMmapFile_exists:
  "\<not> unwritable fs (mmapFilePath self) \<Longrightarrow> \<not> unsearchable fs (mmapFilePath self) \<Longrightarrow>
     path_exists (snd (snd (createNewMmapFile fs self d))) (mmapFilePath self) = Inr True"
  by (auto simp: createNewMmapFile_def Let_def open_wb_def file_write_def path_exists_def
      split: option.splits prod.splits if_splits)

lemma createNewMmapFile_path:
  "mmapFilePath (fst (snd (createNewMmapFile fs self d))) = mmapFilePath self"
  by (auto simp: createNewMmapFile_def Let_def called_def
      split: sum.splits option.splits prod.splits)

text \<open>What the constructor of the Manager does once the Editor part has returned.\<close>

lemma Manager_init_cases:
  assumes "DataStructMmapEditor_init pkg structName tag mmapDir fastenerDir = Inr self0"
  shows "DataStructMmapManager_init py pkg now fs structName tag mmapDir fastenerDir create force =
     (if create then
        (case must_create fs (self0\<lparr>editable := True\<rparr>) force of
           Inl e \<Rightarrow> (Inl e, fs)
         | Inr b \<Rightarrow>
             if b then
               (case generateStruct py pkg now (self0\<lparr>editable := True\<rparr>) of
                  Inl e \<Rightarrow> (Inl e, fs)
                | Inr d \<Rightarrow> (Inr (fst (snd (createNewMmapFile fs (self0\<lparr>editable := True\<rparr>) d))),
                            snd (snd (createNewMmapFile fs (self0\<lparr>editable := True\<rparr>) d))))
             else (Inr (self0\<lparr>editable := True\<rparr>), fs))
      else (Inr (self0\<lparr>editable := True\<rparr>), fs))"
  using assms
  by (auto simp: DataStructMmapManager_init_def Let_def split: sum.splits prod.splits bool.splits
      dest: createNewMmapFile_attrs)

lemma must_create_unforced:
  "must_create fs self False =
     (case path_exists fs (mmapFilePath self) of Inl e \<Rightarrow> Inl e | Inr found \<Rightarrow> Inr (\<not> found))"
  by (simp add: must_create_def)

text \<open>
  C4. Constructing a Manager with \<open>create=True\<close>, \<open>force=False\<close> when the backing file
  exists leaves the whole file system, and so the size and content of that file, as it
  was. From any file system, a second such construction (at any later time) leaves the
  files as the first construction left them.
\<close>

theorem ensure_store_idempotent:
  "(\<forall>self. fst (DataStructMmapManager_init py pkg now fs structName tag mmapDir fastenerDir
                   True False) = Inr self \<and> path_exists fs (mmapFilePath self) = Inr True \<longrightarrow>
      snd (DataStructMmapManager_init py pkg now fs structName tag mmapDir fastenerDir
             True False) = fs) \<and>
   snd (DataStructMmapManager_init py pkg now'
          (snd (DataStructMmapManager_init py pkg now fs structName tag mmapDir fastenerDir
                  True False))
          structName tag mmapDir fastenerDir True False) =
   snd (DataStructMmapManager_init py pkg now fs structName tag mmapDir fastenerDir True False)"
proof (cases "DataStructMmapEditor_init pkg structName tag mmapDir fastenerDir")
  case (Inl e)
  then show ?thesis
    by (simp add: DataStructMmapManager_init_def)
next
  case (Inr self0)
  let ?self = "self0\<lparr>editable := True\<rparr>"
  note c = Manager_init_cases [OF Inr]
  have 1: "\<forall>self. fst (DataStructMmapManager_init py pkg now fs structName tag mmapDir fastenerDir
                   True False) = Inr self \<and> path_exists fs (mmapFilePath self) = Inr True \<longrightarrow>
      snd (DataStructMmapManager_init py pkg now fs structName tag mmapDir fastenerDir
             True False) = fs"
    by (auto simp: c must_create_unforced createNewMmapFile_path split: sum.splits)
  have 2: "snd (DataStructMmapManager_init py pkg now'
          (snd (DataStructMmapManager_init py pkg now fs structName tag mmapDir fastenerDir
                  True False))
          structName tag mmapDir fastenerDir True False) =
   snd (DataStructMmapManager_init py pkg now fs structName tag mmapDir fastenerDir True False)"
  proof (cases "path_exists fs (mmapFilePath self0)")
    case (Inl e)
    then show ?thesis by (simp add: c must_create_unforced)
  next
    case found: (Inr found)
    show ?thesis
    proof (cases found)
      case True
      with found show ?thesis by (simp add: c must_create_unforced)
    next
      case False
      with found have s: "\<not> unsearchable fs (mmapFilePath self0)"
        by (auto simp: path_exists_def split: if_splits)
      show ?thesis
      proof (cases "generateStruct py pkg now ?self")
        case (Inl e)
        with generateStruct_shape [where py = py and pkg = pkg and now = now and self = ?self
            and now' = now']
        have "generateStruct py pkg now' ?self = Inl e" by simp
        with False found Inl show ?thesis by (simp add: c must_create_unforced)
      next
        case (Inr d)
        show ?thesis
        proof (cases "unwritable fs (mmapFilePath self0)")
          case True
          then have "snd (snd (createNewMmapFile fs ?self d')) = fs" for d'
            using createNewMmapFile_refused [of fs ?self] by simp
          with False found Inr show ?thesis
            by (simp add: c must_create_unforced split: sum.splits)
        next
          case u: False
          with s have "path_exists (snd (snd (createNewMmapFile fs ?self d))) (mmapFilePath self0) =
                         Inr True"
            using createNewMmapFile_exists [of fs ?self d] by simp
          with False found Inr show ?thesis
            by (simp add: c must_create_unforced)
        qed
      qed
    qed
  qed
  from 1 2 show ?thesis by blast
qed

theorem ensure_store_idempotent_witness:
  "fst (DataStructMmapManager_init host example_package 5 telemetry_disk ''Telemetry'' ''car1''
          None None True False) = Inr telemetry_unopened \<and>
   path_exists telemetry_disk (mmapFilePath telemetry_unopened) = Inr True \<and>
   snd (DataStructMmapManager_init host example_package 5 telemetry_disk ''Telemetry'' ''car1''
          None None True False) = telemetry_disk \<and>
   snd (DataStructMmapManager_init host example_package 6
          (snd (DataStructMmapManager_init host example_package 5 empty_disk ''Telemetry''
                  ''car1'' None None True False))
          ''Telemetry'' ''car1'' None None True False) =
   snd (DataStructMmapManager_init host example_package 5 empty_disk ''Telemetry'' ''car1''
          None None True False)"
proof -
  have a: "fst (DataStructMmapManager_init host example_package 5 telemetry_disk ''Telemetry''
                  ''car1'' None None True False) = Inr telemetry_unopened"
    by (simp add: init_defs example_defs path_exists_def must_create_def)
  have b: "path_exists telemetry_disk (mmapFilePath telemetry_unopened) = Inr True"
    by (simp add: example_defs path_exists_def)
  from ensure_store_idempotent [where py = host and pkg = example_package and now = 5
      and fs = telemetry_disk and structName = "''Telemetry''" and tag = "''car1''"
      and mmapDir = None and fastenerDir = None] a b
  have c: "snd (DataStructMmapManager_init host example_package 5 telemetry_disk ''Telemetry''
                  ''car1'' None None True False) = telemetry_disk"
    by blast
  from ensure_store_idempotent [where py = host and pkg = example_package and now = 5
      and fs = empty_disk and structName = "''Telemetry''" and tag = "''car1''"
      and mmapDir = None and fastenerDir = None and now' = 6]
  have d: "snd (DataStructMmapManager_init host example_package 6
          (snd (DataStructMmapManager_init host example_package 5 empty_disk ''Telemetry''
                  ''car1'' None None True False))
          ''Telemetry'' ''car1'' None None True False) =
   snd (DataStructMmapManager_init host example_package 5 empty_disk ''Telemetry'' ''car1''
          None None True False)"
    by blast
  from a b c d show ?thesis by blast
qed

text \<open>
  C1, as the code has it. Creating the backing file fails when the open is refused, or
  when the write raises after the open (whatever part of the data it has written by
  then). In both cases \<open>_createNewMmapFile\<close> catches the exception and returns
  \<open>None\<close>, and the constructor of the Manager, once the Editor part has returned, the
  test \<^verbatim>\<open>force or (not self.mmapFilePath.exists())\<close> has come out true and the default
  structure is built, completes normally with the accessor: no error reaches the
  caller. After a refused open the file system is as it was; after a failed write it is
  as the write left it. (When \<open>exists()\<close> itself raises, no creation is attempted and
  the constructor raises that error.)
\<close>

theorem creation_failure_discarded:
  "fst (createNewMmapFile fs self d) = Inr () \<and>
   (DataStructMmapEditor_init pkg structName tag mmapDir fastenerDir = Inr self0 \<and>
    generateStruct py pkg now (self0\<lparr>editable := True\<rparr>) = Inr d0 \<and>
    must_create fs (self0\<lparr>editable := True\<rparr>) force = Inr True \<longrightarrow>
      (open_wb fs (mmapFilePath self0) = Inl e \<longrightarrow>
         (\<exists>self'. DataStructMmapManager_init py pkg now fs structName tag mmapDir fastenerDir
                     True force = (Inr self', fs))) \<and>
      (open_wb fs (mmapFilePath self0) = Inr fs1 \<and> buffer_of d0 = Some bs \<and>
       file_write fs1 (mmapFilePath self0) bs = (Inl e, fs2) \<longrightarrow>
         (\<exists>self'. DataStructMmapManager_init py pkg now fs structName tag mmapDir fastenerDir
                     True force = (Inr self', fs2)))) \<and>
   (DataStructMmapEditor_init pkg structName tag mmapDir fastenerDir = Inr self0 \<and>
    must_create fs (self0\<lparr>editable := True\<rparr>) force = Inl e \<longrightarrow>
      DataStructMmapManager_init py pkg now fs structName tag mmapDir fastenerDir True force =
        (Inl e, fs))"
proof (intro conjI impI)
  show "fst (createNewMmapFile fs self d) = Inr ()"
    by (rule createNewMmapFile_returns)
next
  assume a: "DataStructMmapEditor_init pkg structName tag mmapDir fastenerDir = Inr self0 \<and>
    generateStruct py pkg now (self0\<lparr>editable := True\<rparr>) = Inr d0 \<and>
    must_create fs (self0\<lparr>editable := True\<rparr>) force = Inr True"
    and o: "open_wb fs (mmapFilePath self0) = Inl e"
  from o have "snd (snd (createNewMmapFile fs (self0\<lparr>editable := True\<rparr>) d0)) = fs"
    by (simp add: createNewMmapFile_def Let_def)
  with a show "\<exists>self'. DataStructMmapManager_init py pkg now fs structName tag mmapDir fastenerDir
                     True force = (Inr self', fs)"
    using Manager_init_cases [of pkg structName tag mmapDir fastenerDir self0 py now fs True force]
    by auto
next
  assume a: "DataStructMmapEditor_init pkg structName tag mmapDir fastenerDir = Inr self0 \<and>
    generateStruct py pkg now (self0\<lparr>editable := True\<rparr>) = Inr d0 \<and>
    must_create fs (self0\<lparr>editable := True\<rparr>) force = Inr True"
    and o: "open_wb fs (mmapFilePath self0) = Inr fs1 \<and> buffer_of d0 = Some bs \<and>
       file_write fs1 (mmapFilePath self0) bs = (Inl e, fs2)"
  from o have "snd (snd (createNewMmapFile fs (self0\<lparr>editable := True\<rparr>) d0)) = fs2"
    by (simp add: createNewMmapFile_def Let_def)
  with a show "\<exists>self'. DataStructMmapManager_init py pkg now fs structName tag mmapDir fastenerDir
                     True force = (Inr self', fs2)"
    using Manager_init_cases [of pkg structName tag mmapDir fastenerDir self0 py now fs True force]
    by auto
next
  assume a: "DataStructMmapEditor_init pkg structName tag mmapDir fastenerDir = Inr self0 \<and>
    must_create fs (self0\<lparr>editable := True\<rparr>) force = Inl e"
  then show "DataStructMmapManager_init py pkg now fs structName tag mmapDir fastenerDir True force =
        (Inl e, fs)"
    using Manager_init_cases [of pkg structName tag mmapDir fastenerDir self0 py now fs True force]
    by auto
qed

lemma length_int_to_bytes: "length (int_to_bytes py n i) = n"
  by (simp add: int_to_bytes_def length_byte_order length_encode_le)

theorem creation_failure_counterexample:
  "open_wb readonly_disk ''/mmap/Telemetry_car1.mmap'' = Inl OSError \<and>
   DataStructMmapManager_init host example_package 5 readonly_disk ''Telemetry'' ''car1''
     None None True False =
   (Inr (telemetry_unopened\<lparr>calls := [FileOpen ''/mmap/Telemetry_car1.mmap'']\<rparr>), readonly_disk) \<and>
   fst (DataStructMmapManager_init host example_package 5 readonly_disk ''Telemetry'' ''car1''
     None None True False) \<noteq> Inl StoreCreationError"
  by (simp add: init_defs example_defs path_exists_def must_create_def generateStruct_def
      struct_new_def py_setattr_def field_of_def createNewMmapFile_def open_wb_def called_def
      Let_def length_store_any length_float_to_bytes length_int_to_bytes as_double_float)

lemma example_Editor_init:
  "DataStructMmapEditor_init example_package ''Telemetry'' ''car1'' None None = Inr telemetry_unopened"
  by (simp add: init_defs example_defs)

lemma example_generateStruct:
  "\<exists>bs. generateStruct host example_package 5 (telemetry_unopened\<lparr>editable := True\<rparr>) =
           Inr (PyCData (as_ctype Telemetry) bs) \<and> length bs = 17"
  by (simp add: example_defs generateStruct_def struct_new_def py_setattr_def field_of_def
      length_store_any length_float_to_bytes length_int_to_bytes as_double_float)

theorem creation_failure_discarded_witness:
  "DataStructMmapEditor_init example_package ''Telemetry'' ''car1'' None None =
     Inr telemetry_unopened \<and>
   must_create readonly_disk (telemetry_unopened\<lparr>editable := True\<rparr>) False = Inr True \<and>
   open_wb readonly_disk (mmapFilePath telemetry_unopened) = Inl OSError \<and>
   (\<exists>self'. DataStructMmapManager_init host example_package 5 readonly_disk ''Telemetry''
              ''car1'' None None True False = (Inr self', readonly_disk)) \<and>
   must_create full_disk (telemetry_unopened\<lparr>editable := True\<rparr>) False = Inr True \<and>
   (\<exists>fs1 fs2 d0 bs.
      generateStruct host example_package 5 (telemetry_unopened\<lparr>editable := True\<rparr>) = Inr d0 \<and>
      open_wb full_disk (mmapFilePath telemetry_unopened) = Inr fs1 \<and> buffer_of d0 = Some bs \<and>
      file_write fs1 (mmapFilePath telemetry_unopened) bs = (Inl OSError, fs2) \<and>
      files fs2 (mmapFilePath telemetry_unopened) = Some (take 10 bs) \<and> length bs = 17 \<and>
      (\<exists>self'. DataStructMmapManager_init host example_package 5 full_disk ''Telemetry''
              ''car1'' None None True False = (Inr self', fs2))) \<and>
   must_create locked_disk (telemetry_unopened\<lparr>editable := True\<rparr>) False = Inl OSError \<and>
   DataStructMmapManager_init host example_package 5 locked_disk ''Telemetry'' ''car1'' None None
     True False = (Inl OSError, locked_disk)"
proof -
  note e = example_Editor_init
  from example_generateStruct obtain bs
    where g: "generateStruct host example_package 5 (telemetry_unopened\<lparr>editable := True\<rparr>) =
           Inr (PyCData (as_ctype Telemetry) bs)" and l: "length bs = 17"
    by blast
  have p: "must_create readonly_disk (telemetry_unopened\<lparr>editable := True\<rparr>) False = Inr True"
    "must_create full_disk (telemetry_unopened\<lparr>editable := True\<rparr>) False = Inr True"
    "must_create locked_disk (telemetry_unopened\<lparr>editable := True\<rparr>) False = Inl OSError"
    by (simp_all add: example_defs path_exists_def must_create_def)
  have o: "open_wb readonly_disk (mmapFilePath telemetry_unopened) = Inl OSError"
    by (simp add: example_defs open_wb_def)
  obtain fs1 where o2: "open_wb full_disk (mmapFilePath telemetry_unopened) = Inr fs1"
    and d1: "write_limit fs1 = Some 10"
    by (simp add: example_defs open_wb_def)
  from l d1 obtain fs2
    where w: "file_write fs1 (mmapFilePath telemetry_unopened) bs = (Inl OSError, fs2)"
      and f2: "files fs2 (mmapFilePath telemetry_unopened) = Some (take 10 bs)"
    by (simp add: file_write_def)
  have b: "buffer_of (PyCData (as_ctype Telemetry) bs) = Some bs" by simp
  from creation_failure_discarded [where pkg = example_package and structName = "''Telemetry''"
      and tag = "''car1''" and mmapDir = None and fastenerDir = None and ?self0.0 = telemetry_unopened
      and py = host and now = 5 and ?d0.0 = "PyCData (as_ctype Telemetry) bs" and force = False
      and fs = readonly_disk and e = OSError] e g p(1) o
  have 1: "\<exists>self'. DataStructMmapManager_init host example_package 5 readonly_disk ''Telemetry''
              ''car1'' None None True False = (Inr self', readonly_disk)"
    by blast
  from creation_failure_discarded [where pkg = example_package and structName = "''Telemetry''"
      and tag = "''car1''" and mmapDir = None and fastenerDir = None and ?self0.0 = telemetry_unopened
      and py = host and now = 5 and ?d0.0 = "PyCData (as_ctype Telemetry) bs" and force = False
      and fs = full_disk and e = OSError and ?fs1.0 = fs1 and bs = bs and ?fs2.0 = fs2] e g p(2) o2 b w
  have 2: "\<exists>self'. DataStructMmapManager_init host example_package 5 full_disk ''Telemetry''
              ''car1'' None None True False = (Inr self', fs2)"
    by blast
  from creation_failure_discarded [where pkg = example_package and structName = "''Telemetry''"
      and tag = "''car1''" and mmapDir = None and fastenerDir = None and ?self0.0 = telemetry_unopened
      and py = host and now = 5 and force = False and fs = locked_disk and e = OSError] e p(3)
  have 3: "DataStructMmapManager_init host example_package 5 locked_disk ''Telemetry'' ''car1''
             None None True False = (Inl OSError, locked_disk)"
    by blast
  from e p o 1 g o2 b w f2 l 2 3 show ?thesis by blast
qed

subsection \<open>The last update\<close>

text \<open>
  C6. Without a mapping (\<open>self.mm\<close> is \<open>None\<close>) \<open>getLastUpdate\<close> returns \<open>-1\<close>,
  raises nothing and changes nothing. On an open store whose layout has a \<open>c_double\<close>
  at \<open>header.time_stamp\<close> it returns the float stored there.
\<close>

theorem last_update_sentinel:
  "(mm self = None \<longrightarrow> getLastUpdate py self = (Inr (Val (PyInt (- 1))), self)) \<and>
   (open_store self \<and>
    spec_resolve (as_ctype (structType self)) 0 [''header'', ''time_stamp''] = Inr (off, CDouble) \<longrightarrow>
      fst (getLastUpdate py self) =
        Inr (Val (PyFloat (bytes_to_float py (slice off 8 (mapped self))))))"
proof (intro conjI impI)
  assume "mm self = None"
  then show "getLastUpdate py self = (Inr (Val (PyInt (- 1))), self)"
    by (simp add: getLastUpdate_def)
next
  let ?t = "as_ctype (structType self)"
  assume a: "open_store self \<and>
    spec_resolve ?t 0 [''header'', ''time_stamp''] = Inr (off, CDouble)"
  then obtain m where m: "mm self = Some m" "\<not> closed m" "sizeof ?t \<le> length (buf m)"
    and w: "wf_ctype ?t"
    by (auto simp: open_store_def split: option.splits)
  from a have r: "spec_resolve ?t 0 [''header'', ''time_stamp''] = Inr (off, CDouble)" by simp
  from spec_resolve_bounds [OF w r] have b: "off + 8 \<le> sizeof ?t" by simp
  let ?copy = "take (sizeof ?t) (buf m)"
  have v: "field_get py ?copy 0 ?t = View ?t 0"
    by (simp add: as_ctype_def)
  from getattrs_resolved [OF r, of py ?copy] v
  have g: "getattrs py ?copy (View ?t 0) [''header'', ''time_stamp''] =
             Inr (Val (PyFloat (bytes_to_float py (slice off 8 ?copy))))"
    by simp
  from b have s: "slice off 8 ?copy = slice off 8 (buf m)"
    by (rule slice_take)
  from m g s show "fst (getLastUpdate py self) =
        Inr (Val (PyFloat (bytes_to_float py (slice off 8 (mapped self)))))"
    by (simp add: getLastUpdate_def mm_seek_def from_buffer_copy_def called_def detach_def
        mapped_def)
qed

lemma example_open_store: "open_store telemetry_editor \<and> open_store_rw telemetry_editor"
  by (simp add: open_store_def open_store_rw_def example_defs)

lemma example_time_stamp:
  "spec_resolve (as_ctype (structType telemetry_editor)) 0 [''header'', ''time_stamp''] =
     Inr (2, CDouble)"
  by (simp add: example_defs field_of_def)

theorem last_update_sentinel_witness:
  "mm telemetry_unopened = None \<and>
   getLastUpdate host telemetry_unopened = (Inr (Val (PyInt (- 1))), telemetry_unopened) \<and>
   open_store telemetry_editor \<and>
   spec_resolve (as_ctype (structType telemetry_editor)) 0 [''header'', ''time_stamp''] =
     Inr (2, CDouble) \<and>
   fst (getLastUpdate host telemetry_editor) = Inr (Val (PyFloat 0x0807060504030201))"
proof -
  have n: "mm telemetry_unopened = None"
    by (simp add: telemetry_unopened_def)
  have b: "bytes_to_float host (slice 2 8 (mapped telemetry_editor)) = 0x0807060504030201"
    by (simp add: bytes_to_float_def byte_order_def slice_def mapped_def example_defs)
  from last_update_sentinel [of telemetry_unopened host] n
  have 1: "getLastUpdate host telemetry_unopened = (Inr (Val (PyInt (- 1))), telemetry_unopened)"
    by blast
  from last_update_sentinel [of telemetry_editor host 2] example_open_store example_time_stamp b
  have 2: "fst (getLastUpdate host telemetry_editor) = Inr (Val (PyFloat 0x0807060504030201))"
    by simp
  from n 1 2 example_open_store example_time_stamp show ?thesis by blast
qed

subsection \<open>The cursor of the mapping\<close>

lemma with_cursor_None: "mm self = None \<Longrightarrow> with_cursor p self = self"
  by (simp add: with_cursor_def)

lemma mm_with_cursor: "mm (with_cursor p self) = None \<longleftrightarrow> mm self = None"
  by (simp add: with_cursor_def)

lemma mm_seek_with_cursor:
  "mm self = Some m \<Longrightarrow> \<not> closed m \<Longrightarrow> mm_seek 0 (with_cursor p self) = mm_seek 0 self"
  by (simp add: mm_seek_def with_cursor_def called_def)

lemma mm_seek_closed:
  "mm self = Some m \<Longrightarrow> closed m \<Longrightarrow>
     fst (mm_seek 0 (with_cursor p self)) = Inl ValueError \<and> fst (mm_seek 0 self) = Inl ValueError"
  by (simp add: mm_seek_def with_cursor_def called_def)

lemma mm_seek_open:
  "mm self = Some m \<Longrightarrow> \<not> closed m \<Longrightarrow>
     mm_seek 0 self = (Inr (), self\<lparr>mm := Some (m\<lparr>pos := 0\<rparr>), calls := calls self @ [MmSeek 0]\<rparr>)"
  by (simp add: mm_seek_def called_def)

lemmas step_defs = from_buffer_copy_def from_buffer_def called_def mapped_def set_mapped_def
  cursor_def

lemma cursor_independent_getLastUpdate: "cursor_independent (getLastUpdate py)"
  unfolding cursor_independent_def
proof (intro allI conjI impI)
  fix p and self :: accessor
  show "fst (getLastUpdate py (with_cursor p self)) = fst (getLastUpdate py self)"
  proof (cases "mm self")
    case None
    then show ?thesis by (simp add: with_cursor_None)
  next
    case (Some m)
    show ?thesis
    proof (cases "closed m")
      case True
      from mm_seek_closed [OF Some True, of p] Some show ?thesis
        by (auto simp: getLastUpdate_def Let_def mm_with_cursor split: prod.splits sum.splits)
    next
      case False
      from mm_seek_with_cursor [OF Some False, of p] Some show ?thesis
        by (simp add: getLastUpdate_def Let_def mm_with_cursor)
    qed
  qed
next
  fix p and self :: accessor and m
  assume a: "mm self = Some m \<and> \<not> closed m"
  then have s: "mm_seek 0 (with_cursor p self) = mm_seek 0 self"
    by (simp add: mm_seek_with_cursor)
  from a s show "snd (getLastUpdate py (with_cursor p self)) = snd (getLastUpdate py self)"
    by (simp add: getLastUpdate_def Let_def mm_with_cursor)
  from a mm_seek_open [of self m] show "cursor (snd (getLastUpdate py self)) = Some 0"
    by (auto simp: getLastUpdate_def Let_def step_defs split: sum.splits)
  from a mm_seek_open [of self m]
  show "take (Suc (length (calls self))) (calls (snd (getLastUpdate py self))) = calls self @ [MmSeek 0]"
    by (auto simp: getLastUpdate_def Let_def step_defs split: sum.splits)
qed

lemma cursor_independent_readData: "cursor_independent (readData py key)"
  unfolding cursor_independent_def
proof (intro allI conjI impI)
  fix p and self :: accessor
  show "fst (readData py key (with_cursor p self)) = fst (readData py key self)"
  proof (cases "mm self")
    case None
    then show ?thesis by (simp add: with_cursor_None)
  next
    case (Some m)
    show ?thesis
    proof (cases "closed m")
      case True
      from mm_seek_closed [OF Some True, of p] Some show ?thesis
        by (auto simp: readData_def Let_def mm_with_cursor split: prod.splits sum.splits)
    next
      case False
      from mm_seek_with_cursor [OF Some False, of p] Some show ?thesis
        by (simp add: readData_def Let_def mm_with_cursor)
    qed
  qed
next
  fix p and self :: accessor and m
  assume a: "mm self = Some m \<and> \<not> closed m"
  then have s: "mm_seek 0 (with_cursor p self) = mm_seek 0 self"
    by (simp add: mm_seek_with_cursor)
  from a s show "snd (readData py key (with_cursor p self)) = snd (readData py key self)"
    by (simp add: readData_def Let_def mm_with_cursor)
  from a mm_seek_open [of self m] show "cursor (snd (readData py key self)) = Some 0"
    by (auto simp: readData_def Let_def step_defs split: sum.splits)
  from a mm_seek_open [of self m]
  show "take (Suc (length (calls self))) (calls (snd (readData py key self))) = calls self @ [MmSeek 0]"
    by (auto simp: readData_def Let_def step_defs split: sum.splits)
qed

lemma cursor_independent_readMappedBuffer: "cursor_independent readMappedBuffer"
  unfolding cursor_independent_def
proof (intro allI conjI impI)
  fix p and self :: accessor
  show "fst (readMappedBuffer (with_cursor p self)) = fst (readMappedBuffer self)"
  proof (cases "mm self")
    case None
    then show ?thesis by (simp add: with_cursor_None)
  next
    case (Some m)
    show ?thesis
    proof (cases "closed m")
      case True
      from mm_seek_closed [OF Some True, of p] Some show ?thesis
        by (auto simp: readMappedBuffer_def Let_def mm_with_cursor split: prod.splits sum.splits)
    next
      case False
      from mm_seek_with_cursor [OF Some False, of p] Some show ?thesis
        by (simp add: readMappedBuffer_def Let_def mm_with_cursor)
    qed
  qed
next
  fix p and self :: accessor and m
  assume a: "mm self = Some m \<and> \<not> closed m"
  then have s: "mm_seek 0 (with_cursor p self) = mm_seek 0 self"
    by (simp add: mm_seek_with_cursor)
  from a s show "snd (readMappedBuffer (with_cursor p self)) = snd (readMappedBuffer self)"
    by (simp add: readMappedBuffer_def Let_def mm_with_cursor)
  from a mm_seek_open [of self m] show "cursor (snd (readMappedBuffer self)) = Some 0"
    by (auto simp: readMappedBuffer_def Let_def step_defs split: sum.splits)
  from a mm_seek_open [of self m]
  show "take (Suc (length (calls self))) (calls (snd (readMappedBuffer self))) = calls self @ [MmSeek 0]"
    by (auto simp: readMappedBuffer_def Let_def step_defs split: sum.splits)
qed

lemma cursor_independent_updateLastUpdate: "cursor_independent (updateLastUpdate py now)"
  unfolding cursor_independent_def
proof (intro allI conjI impI)
  fix p and self :: accessor
  show "fst (updateLastUpdate py now (with_cursor p self)) = fst (updateLastUpdate py now self)"
  proof (cases "mm self")
    case None
    then show ?thesis by (simp add: with_cursor_None)
  next
    case (Some m)
    show ?thesis
    proof (cases "closed m")
      case True
      from mm_seek_closed [OF Some True, of p] Some show ?thesis
        by (auto simp: updateLastUpdate_def Let_def mm_with_cursor split: prod.splits sum.splits)
    next
      case False
      from mm_seek_with_cursor [OF Some False, of p] Some show ?thesis
        by (simp add: updateLastUpdate_def Let_def mm_with_cursor)
    qed
  qed
next
  fix p and self :: accessor and m
  assume a: "mm self = Some m \<and> \<not> closed m"
  then have s: "mm_seek 0 (with_cursor p self) = mm_seek 0 self"
    by (simp add: mm_seek_with_cursor)
  from a s show "snd (updateLastUpdate py now (with_cursor p self)) = snd (updateLastUpdate py now self)"
    by (simp add: updateLastUpdate_def Let_def mm_with_cursor)
  from a mm_seek_open [of self m] show "cursor (snd (updateLastUpdate py now self)) = Some 0"
    by (auto simp: updateLastUpdate_def Let_def step_defs split: sum.splits)
  from a mm_seek_open [of self m]
  show "take (Suc (length (calls self))) (calls (snd (updateLastUpdate py now self))) = calls self @ [MmSeek 0]"
    by (auto simp: updateLastUpdate_def Let_def step_defs split: sum.splits)
qed

lemma cursor_independent_writeData: "cursor_independent (writeData py key v)"
  unfolding cursor_independent_def
proof (intro allI conjI impI)
  fix p and self :: accessor
  show "fst (writeData py key v (with_cursor p self)) = fst (writeData py key v self)"
  proof (cases "mm self")
    case None
    then show ?thesis by (simp add: with_cursor_None)
  next
    case (Some m)
    show ?thesis
    proof (cases "closed m")
      case True
      from mm_seek_closed [OF Some True, of p] Some show ?thesis
        by (auto simp: writeData_def Let_def mm_with_cursor split: prod.splits sum.splits)
    next
      case False
      from mm_seek_with_cursor [OF Some False, of p] Some show ?thesis
        by (simp add: writeData_def Let_def mm_with_cursor)
    qed
  qed
next
  fix p and self :: accessor and m
  assume a: "mm self = Some m \<and> \<not> closed m"
  then have s: "mm_seek 0 (with_cursor p self) = mm_seek 0 self"
    by (simp add: mm_seek_with_cursor)
  from a s show "snd (writeData py key v (with_cursor p self)) = snd (writeData py key v self)"
    by (simp add: writeData_def Let_def mm_with_cursor)
  from a mm_seek_open [of self m] show "cursor (snd (writeData py key v self)) = Some 0"
    by (auto simp: writeData_def Let_def step_defs split: sum.splits)
  from a mm_seek_open [of self m]
  show "take (Suc (length (calls self))) (calls (snd (writeData py key v self))) = calls self @ [MmSeek 0]"
    by (auto simp: writeData_def Let_def step_defs split: sum.splits)
qed

lemma cursor_independent_referMappedBuffer: "cursor_independent referMappedBuffer"
  unfolding cursor_independent_def
proof (intro allI conjI impI)
  fix p and self :: accessor
  show "fst (referMappedBuffer (with_cursor p self)) = fst (referMappedBuffer self)"
  proof (cases "mm self")
    case None
    then show ?thesis by (simp add: with_cursor_None)
  next
    case (Some m)
    show ?thesis
    proof (cases "closed m")
      case True
      from mm_seek_closed [OF Some True, of p] Some show ?thesis
        by (auto simp: referMappedBuffer_def Let_def mm_with_cursor split: prod.splits sum.splits)
    next
      case False
      from mm_seek_with_cursor [OF Some False, of p] Some show ?thesis
        by (simp add: referMappedBuffer_def Let_def mm_with_cursor)
    qed
  qed
next
  fix p and self :: accessor and m
  assume a: "mm self = Some m \<and> \<not> closed m"
  then have s: "mm_seek 0 (with_cursor p self) = mm_seek 0 self"
    by (simp add: mm_seek_with_cursor)
  from a s show "snd (referMappedBuffer (with_cursor p self)) = snd (referMappedBuffer self)"
    by (simp add: referMappedBuffer_def Let_def mm_with_cursor)
  from a mm_seek_open [of self m] show "cursor (snd (referMappedBuffer self)) = Some 0"
    by (auto simp: referMappedBuffer_def Let_def step_defs split: sum.splits)
  from a mm_seek_open [of self m]
  show "take (Suc (length (calls self))) (calls (snd (referMappedBuffer self))) = calls self @ [MmSeek 0]"
    by (auto simp: referMappedBuffer_def Let_def step_defs split: sum.splits)
qed

lemma cursor_independent_clearMappedBuffer: "cursor_independent clearMappedBuffer"
  unfolding cursor_independent_def
proof (intro allI conjI impI)
  fix p and self :: accessor
  show "fst (clearMappedBuffer (with_cursor p self)) = fst (clearMappedBuffer self)"
  proof (cases "mm self")
    case None
    then show ?thesis by (simp add: with_cursor_None)
  next
    case (Some m)
    show ?thesis
    proof (cases "closed m")
      case True
      from mm_seek_closed [OF Some True, of p] Some show ?thesis
        by (auto simp: clearMappedBuffer_def Let_def mm_with_cursor split: prod.splits sum.splits)
    next
      case False
      from mm_seek_with_cursor [OF Some False, of p] Some show ?thesis
        by (simp add: clearMappedBuffer_def Let_def mm_with_cursor)
    qed
  qed
next
  fix p and self :: accessor and m
  assume a: "mm self = Some m \<and> \<not> closed m"
  then have s: "mm_seek 0 (with_cursor p self) = mm_seek 0 self"
    by (simp add: mm_seek_with_cursor)
  from a s show "snd (clearMappedBuffer (with_cursor p self)) = snd (clearMappedBuffer self)"
    by (simp add: clearMappedBuffer_def Let_def mm_with_cursor)
  from a mm_seek_open [of self m] show "cursor (snd (clearMappedBuffer self)) = Some 0"
    by (auto simp: clearMappedBuffer_def Let_def step_defs split: sum.splits)
  from a mm_seek_open [of self m]
  show "take (Suc (length (calls self))) (calls (snd (clearMappedBuffer self))) = calls self @ [MmSeek 0]"
    by (auto simp: clearMappedBuffer_def Let_def step_defs split: sum.splits)
qed

text \<open>
  C9. Each of \<open>getLastUpdate\<close>, \<open>readData\<close>, \<open>readMappedBuffer\<close>,
  \<open>updateLastUpdate\<close>, \<open>writeData\<close>, \<open>referMappedBuffer\<close> and
  \<open>clearMappedBuffer\<close> seeks the mapping to offset 0 before it decodes or encodes:
  what it returns does not depend on where the cursor was left, and on a mapping that
  is not closed the accessor it leaves behind does not either, has the cursor at 0, and
  the seek to 0 is the first call the method makes.
\<close>

theorem operations_reseek:
  "cursor_independent (getLastUpdate py) \<and>
   cursor_independent (readData py key) \<and>
   cursor_independent readMappedBuffer \<and>
   cursor_independent (updateLastUpdate py now) \<and>
   cursor_independent (writeData py key v) \<and>
   cursor_independent referMappedBuffer \<and>
   cursor_independent clearMappedBuffer"
  by (simp only: cursor_independent_getLastUpdate cursor_independent_readData
      cursor_independent_readMappedBuffer cursor_independent_updateLastUpdate
      cursor_independent_writeData cursor_independent_referMappedBuffer
      cursor_independent_clearMappedBuffer simp_thms)

theorem operations_reseek_witness:
  "mm telemetry_editor = Some \<lparr>buf = telemetry_bytes, pos = 7, closed = False, writable = True\<rparr> \<and>
   \<not> closed \<lparr>buf = telemetry_bytes, pos = 7, closed = False, writable = True\<rparr> \<and>
   fst (readData host ''speed'' (with_cursor 3 telemetry_editor)) =
     fst (readData host ''speed'' telemetry_editor) \<and>
   snd (readData host ''speed'' (with_cursor 3 telemetry_editor)) =
     snd (readData host ''speed'' telemetry_editor) \<and>
   cursor (snd (readData host ''speed'' telemetry_editor)) = Some 0 \<and>
   take (Suc (length (calls telemetry_editor))) (calls (snd (readData host ''speed'' telemetry_editor))) =
     calls telemetry_editor @ [MmSeek 0]"
proof -
  have m: "mm telemetry_editor = Some \<lparr>buf = telemetry_bytes, pos = 7, closed = False, writable = True\<rparr>"
    and c: "\<not> closed \<lparr>buf = telemetry_bytes, pos = 7, closed = False, writable = True\<rparr>"
    by (simp_all add: telemetry_editor_def)
  from operations_reseek [of host "''speed''"]
  have "cursor_independent (readData host ''speed'')" by blast
  with m c show ?thesis
    unfolding cursor_independent_def by blast
qed

subsection \<open>The advisory lock\<close>

lemma lock_free_getLastUpdate: "lock_free (getLastUpdate py)"
  unfolding lock_free_def
  by (auto simp: getLastUpdate_def Let_def mm_seek_def step_defs
      split: sum.splits prod.splits option.splits if_splits)

lemma lock_free_readData: "lock_free (readData py key)"
  unfolding lock_free_def
  by (auto simp: readData_def Let_def mm_seek_def step_defs
      split: sum.splits prod.splits option.splits if_splits)

lemma lock_free_readMappedBuffer: "lock_free readMappedBuffer"
  unfolding lock_free_def
  by (auto simp: readMappedBuffer_def Let_def mm_seek_def step_defs
      split: sum.splits prod.splits option.splits if_splits)

lemma lock_free_updateLastUpdate: "lock_free (updateLastUpdate py now)"
  unfolding lock_free_def
  by (auto simp: updateLastUpdate_def Let_def mm_seek_def step_defs
      split: sum.splits prod.splits option.splits if_splits)

lemma lock_free_writeData: "lock_free (writeData py key v)"
  unfolding lock_free_def
  by (auto simp: writeData_def Let_def mm_seek_def step_defs
      split: sum.splits prod.splits option.splits if_splits)

lemma lock_free_referMappedBuffer: "lock_free referMappedBuffer"
  unfolding lock_free_def
  by (auto simp: referMappedBuffer_def Let_def mm_seek_def step_defs
      split: sum.splits prod.splits option.splits if_splits)

lemma lock_free_clearMappedBuffer: "lock_free clearMappedBuffer"
  unfolding lock_free_def
  by (auto simp: clearMappedBuffer_def Let_def mm_seek_def step_defs
      split: sum.splits prod.splits option.splits if_splits)

lemma Editor_init_calls:
  "DataStructMmapEditor_init pkg structName tag mmapDir fastenerDir = Inr self \<Longrightarrow> calls self = []"
  by (auto simp: init_defs Let_def split: sum.splits)

lemma createNewMmapFile_calls:
  "list_all (\<lambda>c. \<not> is_lock_call c) (calls self) \<Longrightarrow>
     list_all (\<lambda>c. \<not> is_lock_call c) (calls (fst (snd (createNewMmapFile fs self d))))"
  by (auto simp: createNewMmapFile_def Let_def called_def
      split: sum.splits option.splits prod.splits)

lemma Manager_init_calls:
  assumes "fst (DataStructMmapManager_init py pkg now fs structName tag mmapDir fastenerDir
                  create force) = Inr self"
  shows "list_all (\<lambda>c. \<not> is_lock_call c) (calls self)"
proof -
  from assms obtain self0
    where e: "DataStructMmapEditor_init pkg structName tag mmapDir fastenerDir = Inr self0"
    by (auto simp: DataStructMmapManager_init_def split: sum.splits)
  from Editor_init_calls [OF e]
  have z: "list_all (\<lambda>c. \<not> is_lock_call c) (calls (self0\<lparr>editable := True\<rparr>))"
    by simp
  from assms createNewMmapFile_calls [OF z, of fs] z show ?thesis
    by (auto simp: Manager_init_cases [OF e] split: if_splits sum.splits)
qed

text \<open>
  C3, as the code has it. None of \<open>readData\<close>, \<open>readMappedBuffer\<close>, \<open>writeData\<close>,
  \<open>updateLastUpdate\<close>, \<open>clearMappedBuffer\<close> (nor \<open>getLastUpdate\<close> and
  \<open>referMappedBuffer\<close>) acquires or releases the advisory lock: the calls a method
  adds are calls on the mapping only, on every exit path. The constructor of the
  Manager, with or without \<open>force\<close>, makes no call on the lock either: the lock-file
  path is computed and stored, and the file is opened and written without it.
\<close>

theorem no_lock_calls:
  "lock_free (readData py key) \<and>
   lock_free readMappedBuffer \<and>
   lock_free (writeData py key v) \<and>
   lock_free (updateLastUpdate py now) \<and>
   lock_free clearMappedBuffer \<and>
   lock_free (getLastUpdate py) \<and>
   lock_free referMappedBuffer \<and>
   (\<forall>self. fst (DataStructMmapManager_init py pkg now fs structName tag mmapDir fastenerDir
                   create force) = Inr self \<longrightarrow>
           list_all (\<lambda>c. \<not> is_lock_call c) (calls self))"
  using Manager_init_calls [of py pkg now fs structName tag mmapDir fastenerDir create force]
  by (simp only: lock_free_readData lock_free_readMappedBuffer lock_free_writeData
      lock_free_updateLastUpdate lock_free_clearMappedBuffer lock_free_getLastUpdate
      lock_free_referMappedBuffer simp_thms) blast

lemma encode_le_numeral:
  "encode_le (numeral k) x = of_nat (x mod 256) # encode_le (pred_numeral k) (x div 256)"
  by (simp only: numeral_eq_Suc [of k] encode_le.simps)

lemmas method_defs = readData_def writeData_def mm_seek_def from_buffer_copy_def from_buffer_def
  called_def mapped_def set_mapped_def py_getattr_def py_setattr_def field_of_def detach_def
  slice_def store_def

lemma float_widen_example: "float_widen 0x422A0000 = 0x4045400000000000"
  by (simp add: float_widen_def widen_bits_def Let_def)


lemma float_narrow_zero: "float_narrow 0 = 0"
  by (simp add: float_narrow_def narrow_bits_def Let_def)

lemma float_widen_zero: "float_widen 0 = 0"
  by (simp add: float_widen_def widen_bits_def Let_def)

theorem lock_discipline_counterexample:
  "fst (readData host ''speed'' telemetry_editor) = Inr (Val (PyFloat 0x4045400000000000)) \<and>
   calls (snd (readData host ''speed'' telemetry_editor)) = [MmSeek 0, MmFromBufferCopy] \<and>
   fst (writeData host ''speed'' (PyFloat 0) telemetry_editor) = Inr () \<and>
   mapped (snd (writeData host ''speed'' (PyFloat 0) telemetry_editor)) \<noteq> mapped telemetry_editor \<and>
   calls (snd (writeData host ''speed'' (PyFloat 0) telemetry_editor)) = [MmSeek 0, MmFromBuffer]"
  by (simp add: method_defs example_defs bytes_to_single_def single_to_bytes_def byte_order_def
      Let_def encode_le_numeral as_double_float float_widen_example float_narrow_zero)

theorem no_lock_calls_witness:
  "take (length (calls telemetry_editor))
      (calls (snd (writeData host ''speed'' (PyFloat 0) telemetry_editor))) =
     calls telemetry_editor \<and>
   list_all (\<lambda>c. \<not> is_lock_call c)
     (drop (length (calls telemetry_editor))
        (calls (snd (writeData host ''speed'' (PyFloat 0) telemetry_editor)))) \<and>
   (\<exists>self. fst (DataStructMmapManager_init host example_package 5 empty_disk ''Telemetry''
                  ''car1'' None None True True) = Inr self \<and>
           list_all (\<lambda>c. \<not> is_lock_call c) (calls self))"
proof -
  note t = no_lock_calls [where py = host and key = "''speed''" and v = "PyFloat 0" and now = 5
      and pkg = example_package and fs = empty_disk and structName = "''Telemetry''"
      and tag = "''car1''" and mmapDir = None and fastenerDir = None and create = True
      and force = True]
  from t have w: "lock_free (writeData host ''speed'' (PyFloat 0))" by blast
  from example_generateStruct obtain bs
    where g: "generateStruct host example_package 5 (telemetry_unopened\<lparr>editable := True\<rparr>) =
           Inr (PyCData (as_ctype Telemetry) bs)"
    by blast
  have "\<exists>self. fst (DataStructMmapManager_init host example_package 5 empty_disk ''Telemetry''
                  ''car1'' None None True True) = Inr self"
    by (simp add: Manager_init_cases [OF example_Editor_init] g must_create_def)
  with t have m: "\<exists>self. fst (DataStructMmapManager_init host example_package 5 empty_disk ''Telemetry''
                  ''car1'' None None True True) = Inr self \<and>
           list_all (\<lambda>c. \<not> is_lock_call c) (calls self)"
    by blast
  from w m show ?thesis
    unfolding lock_free_def by blast
qed

subsection \<open>Reading and writing on an open store\<close>

lemma top_view: "field_get py mem 0 (as_ctype st) = View (as_ctype st) 0"
  by (simp add: as_ctype_def)











subsection \<open>Encoding and decoding a field\<close>

lemma float_roundtrip: "bytes_to_float py (float_to_bytes py w) = w"
proof -
  have "unat w < 2 ^ LENGTH(64)"
    by (rule unsigned_less)
  then have "unat w mod 256 ^ 8 = unat w"
    by simp
  then show ?thesis
    by (simp add: bytes_to_float_def float_to_bytes_def byte_order_twice decode_encode_le)
qed










lemma spec_resolve_append:
  "spec_resolve t off (xs @ ys) =
     (case spec_resolve t off xs of
        Inl e \<Rightarrow> Inl e
      | Inr r \<Rightarrow> spec_resolve (snd r) (fst r) ys)"
  by (induction xs arbitrary: t off) (auto split: ctype.splits option.splits)

lemma spec_resolve_last:
  assumes "spec_resolve t off ks = Inr (off', T)" and "ks \<noteq> []"
  shows "\<exists>poff pt f. spec_resolve t off (butlast ks) = Inr (poff, pt) \<and>
           field_of pt (last ks) = Some f \<and> \<not> is_leaf pt \<and> off' = poff + fst f \<and> T = snd f"
proof -
  from assms(2) have "ks = butlast ks @ [last ks]" by simp
  with assms(1) spec_resolve_append [of t off "butlast ks" "[last ks]"]
  have c: "(case spec_resolve t off (butlast ks) of
        Inl e \<Rightarrow> Inl e
      | Inr r \<Rightarrow> spec_resolve (snd r) (fst r) [last ks]) = Inr (off', T)"
    by simp
  then obtain r where p': "spec_resolve t off (butlast ks) = Inr r"
    and q': "spec_resolve (snd r) (fst r) [last ks] = Inr (off', T)"
    by (auto split: sum.splits)
  obtain poff pt where r: "r = (poff, pt)" by (cases r)
  from p' q' r have p: "spec_resolve t off (butlast ks) = Inr (poff, pt)"
    and q: "spec_resolve pt poff [last ks] = Inr (off', T)"
    by simp_all
  from q show ?thesis
    using p by (cases pt) (auto split: option.splits)
qed

subsection \<open>The two casts of a single-precision field\<close>

lemma field_split:
  assumes "b < (n::nat)"
  shows "(a * n + b) div n = a" and "(a * n + b) mod n = b"
  using assms by simp_all

lemma single_parts:
  assumes "sg < 2" and "e < 256" and "f < 2 ^ 23"
  shows "(sg * 2 ^ 31 + e * 2 ^ 23 + f) div 2 ^ 31 = (sg::nat)"
    and "(sg * 2 ^ 31 + e * 2 ^ 23 + f) div 2 ^ 23 mod 2 ^ 8 = e"
    and "(sg * 2 ^ 31 + e * 2 ^ 23 + f) mod 2 ^ 23 = f"
proof -
  have a: "sg * 2 ^ 31 + e * 2 ^ 23 + f = (sg * 2 ^ 8 + e) * 2 ^ 23 + f"
    by simp
  from assms have b: "e * 2 ^ 23 + f < 2 ^ 31" by simp
  have c: "sg * 2 ^ 31 + e * 2 ^ 23 + f = sg * 2 ^ 31 + (e * 2 ^ 23 + f)"
    by simp
  from field_split(1) [OF b, of sg] c show "(sg * 2 ^ 31 + e * 2 ^ 23 + f) div 2 ^ 31 = sg"
    by simp
  from field_split(1) [OF assms(3), of "sg * 2 ^ 8 + e"] a
  have "(sg * 2 ^ 31 + e * 2 ^ 23 + f) div 2 ^ 23 = sg * 2 ^ 8 + e"
    by simp
  with assms(2) show "(sg * 2 ^ 31 + e * 2 ^ 23 + f) div 2 ^ 23 mod 2 ^ 8 = e"
    by simp
  show "(sg * 2 ^ 31 + e * 2 ^ 23 + f) mod 2 ^ 23 = f"
    unfolding a by (rule field_split(2) [OF assms(3)])
qed

lemma double_parts:
  assumes "sg < 2" and "E < 2048" and "F < 2 ^ 52"
  shows "(sg * 2 ^ 63 + (E * 2 ^ 52 + F)) div 2 ^ 63 = (sg::nat)"
    and "(sg * 2 ^ 63 + (E * 2 ^ 52 + F)) div 2 ^ 52 mod 2 ^ 11 = E"
    and "(sg * 2 ^ 63 + (E * 2 ^ 52 + F)) mod 2 ^ 52 = F"
proof -
  have a: "sg * 2 ^ 63 + (E * 2 ^ 52 + F) = (sg * 2 ^ 11 + E) * 2 ^ 52 + F"
    by simp
  from assms have b: "E * 2 ^ 52 + F < 2 ^ 63" by simp
  from field_split(1) [OF b, of sg] show "(sg * 2 ^ 63 + (E * 2 ^ 52 + F)) div 2 ^ 63 = sg"
    by simp
  from field_split(1) [OF assms(3), of "sg * 2 ^ 11 + E"] a
  have "(sg * 2 ^ 63 + (E * 2 ^ 52 + F)) div 2 ^ 52 = sg * 2 ^ 11 + E"
    by simp
  with assms(2) show "(sg * 2 ^ 63 + (E * 2 ^ 52 + F)) div 2 ^ 52 mod 2 ^ 11 = E"
    by simp
  show "(sg * 2 ^ 63 + (E * 2 ^ 52 + F)) mod 2 ^ 52 = F"
    unfolding a by (rule field_split(2) [OF assms(3)])
qed

lemma double_bound:
  assumes "sg < 2" and "E < 2048" and "F < 2 ^ 52"
  shows "sg * 2 ^ 63 + (E * 2 ^ 52 + F) < (2::nat) ^ 64"
proof -
  from assms(2,3) have "E * 2 ^ 52 + F < 2 ^ 63" by simp
  moreover from assms(1) have "sg * 2 ^ 63 \<le> 2 ^ 63" by simp
  ultimately show ?thesis by simp
qed

lemma narrow_widen_normal:
  assumes "sg < 2" and "0 < e" and "e < 255" and "f < 2 ^ 23"
  shows "narrow_bits (widen_bits (sg * 2 ^ 31 + e * 2 ^ 23 + f)) = sg * 2 ^ 31 + e * 2 ^ 23 + f"
    and "widen_bits (sg * 2 ^ 31 + e * 2 ^ 23 + f) < 2 ^ 64"
proof -
  from assms have e: "e < 256" by simp
  note sp = single_parts [OF assms(1) e assms(4)]
  from assms have w: "widen_bits (sg * 2 ^ 31 + e * 2 ^ 23 + f) =
      sg * 2 ^ 63 + ((e + 896) * 2 ^ 52 + f * 2 ^ 29)"
    unfolding widen_bits_def Let_def sp by simp
  from assms have E: "e + 896 < 2048" and F: "f * 2 ^ 29 < 2 ^ 52" by simp_all
  note dp = double_parts [OF assms(1) E F]
  have m: "(2 ^ 52 + f * 2 ^ 29) div 2 ^ 29 = 2 ^ 23 + f"
    "(2 ^ 52 + f * 2 ^ 29) mod 2 ^ 29 = 0"
    by simp_all
  from assms have "min ((e + 896 - 897) * 2 ^ 23 + (2 ^ 23 + f)) (255 * 2 ^ 23) = e * 2 ^ 23 + f"
    by (cases e) simp_all
  with assms
  show "narrow_bits (widen_bits (sg * 2 ^ 31 + e * 2 ^ 23 + f)) = sg * 2 ^ 31 + e * 2 ^ 23 + f"
    unfolding w narrow_bits_def Let_def dp by (simp add: m add.assoc)
  from double_bound [OF assms(1) E F]
  show "widen_bits (sg * 2 ^ 31 + e * 2 ^ 23 + f) < 2 ^ 64"
    unfolding w .
qed


lemma narrow_widen_zero:
  assumes "sg < 2"
  shows "narrow_bits (widen_bits (sg * 2 ^ 31)) = sg * 2 ^ 31"
    and "widen_bits (sg * 2 ^ 31) < 2 ^ 64"
proof -
  from single_parts [OF assms, of 0 0]
  have sp: "sg * 2 ^ 31 div 2 ^ 31 = sg" "sg * 2 ^ 31 div 2 ^ 23 mod 2 ^ 8 = 0"
    "sg * 2 ^ 31 mod 2 ^ 23 = 0"
    by simp_all
  have w: "widen_bits (sg * 2 ^ 31) = sg * 2 ^ 63"
    unfolding widen_bits_def Let_def sp by simp
  from double_parts [OF assms, of 0 0]
  have dp: "sg * 2 ^ 63 div 2 ^ 63 = sg" "sg * 2 ^ 63 div 2 ^ 52 mod 2 ^ 11 = 0"
    by simp_all
  show "narrow_bits (widen_bits (sg * 2 ^ 31)) = sg * 2 ^ 31"
    unfolding w narrow_bits_def Let_def dp by simp
  from double_bound [OF assms, of 0 0] show "widen_bits (sg * 2 ^ 31) < 2 ^ 64"
    unfolding w by simp
qed

lemma narrow_widen_special:
  assumes "sg < 2" and "f < 2 ^ 23" and "f = 0 \<or> 2 ^ 22 \<le> f"
  shows "narrow_bits (widen_bits (sg * 2 ^ 31 + 255 * 2 ^ 23 + f)) = sg * 2 ^ 31 + 255 * 2 ^ 23 + f"
    and "widen_bits (sg * 2 ^ 31 + 255 * 2 ^ 23 + f) < 2 ^ 64"
proof -
  note sp = single_parts [OF assms(1) _ assms(2), of 255, simplified]
  let ?F = "if f = 0 then 0 else (f mod 2 ^ 22 + 2 ^ 22) * 2 ^ 29"
  have w: "widen_bits (sg * 2 ^ 31 + 255 * 2 ^ 23 + f) = sg * 2 ^ 63 + (2047 * 2 ^ 52 + ?F)"
    unfolding widen_bits_def Let_def using sp by simp
  have "f mod 2 ^ 22 < 2 ^ 22" by simp
  then have "f mod 2 ^ 22 + 2 ^ 22 < 2 ^ 23" by simp
  then have "(f mod 2 ^ 22 + 2 ^ 22) * 2 ^ 29 < 2 ^ 23 * 2 ^ 29"
    by (rule mult_strict_right_mono) simp
  then have F: "?F < 2 ^ 52" by simp
  have E: "(2047::nat) < 2048" by simp
  note dp = double_parts [OF assms(1) E F]
  from double_bound [OF assms(1) E F]
  show "widen_bits (sg * 2 ^ 31 + 255 * 2 ^ 23 + f) < 2 ^ 64"
    unfolding w .
  show "narrow_bits (widen_bits (sg * 2 ^ 31 + 255 * 2 ^ 23 + f)) =
          sg * 2 ^ 31 + 255 * 2 ^ 23 + f"
  proof (cases "f = 0")
    case True
    with dp show ?thesis
      unfolding w narrow_bits_def Let_def by simp
  next
    case False
    with assms(3) have g: "2 ^ 22 \<le> f" by simp
    with assms(2) have "f div 2 ^ 22 = 1"
      by simp
    then have "f = 2 ^ 22 + f mod 2 ^ 22"
      using div_mult_mod_eq [of f "2 ^ 22"] by simp
    then have r: "f mod 2 ^ 22 + 2 ^ 22 = f" by simp
    from False r have F': "?F = f * 2 ^ 29" by simp
    from False have nz: "f * 2 ^ 29 \<noteq> 0" by simp
    from assms(2) g have q: "f * 2 ^ 29 div 2 ^ 29 mod 2 ^ 22 + 2 ^ 22 = f"
      using r by simp
    from dp F' nz q show ?thesis
      unfolding w narrow_bits_def Let_def by simp
  qed
qed

lemma msb_bounds: "0 < n \<Longrightarrow> 2 ^ msb n \<le> n \<and> n < 2 ^ Suc (msb n)"
proof (induction n rule: msb.induct)
  case (1 n)
  show ?case
  proof (cases "n < 2")
    case True
    with 1(2) have "n = 1" by simp
    then show ?thesis by (simp add: msb.simps)
  next
    case False
    then have p: "0 < n div 2" by simp
    from 1(1) [OF False p] have l: "2 ^ msb (n div 2) \<le> n div 2"
      and u: "n div 2 < 2 ^ Suc (msb (n div 2))"
      by simp_all
    from False have m: "msb n = Suc (msb (n div 2))"
      by (simp add: msb.simps [of n])
    from l have "2 * 2 ^ msb (n div 2) \<le> n" by simp
    moreover from u have "n < 2 * 2 ^ Suc (msb (n div 2))" by simp
    ultimately show ?thesis
      by (simp add: m)
  qed
qed

lemma msb_below:
  assumes "0 < n" and "n < 2 ^ k"
  shows "msb n < k"
proof -
  from msb_bounds [OF assms(1)] have "(2::nat) ^ msb n \<le> n" by simp
  also note assms(2)
  finally have "(2::nat) ^ msb n < 2 ^ k" .
  then show ?thesis by simp
qed

lemma narrow_widen_subnormal:
  assumes "sg < 2" and "0 < f" and "f < 2 ^ 23"
  shows "narrow_bits (widen_bits (sg * 2 ^ 31 + f)) = sg * 2 ^ 31 + f"
    and "widen_bits (sg * 2 ^ 31 + f) < 2 ^ 64"
proof -
  let ?m = "msb f"
  from single_parts [OF assms(1) _ assms(3), of 0]
  have sp: "(sg * 2 ^ 31 + f) div 2 ^ 31 = sg" "(sg * 2 ^ 31 + f) div 2 ^ 23 mod 2 ^ 8 = 0"
    "(sg * 2 ^ 31 + f) mod 2 ^ 23 = f"
    by simp_all
  let ?F = "(f - 2 ^ ?m) * 2 ^ (52 - ?m)"
  from assms(2) have w: "widen_bits (sg * 2 ^ 31 + f) = sg * 2 ^ 63 + ((?m + 874) * 2 ^ 52 + ?F)"
    unfolding widen_bits_def Let_def sp by simp
  from msb_below [OF assms(2,3)] have m: "?m < 23" .
  from msb_bounds [OF assms(2)] have l: "2 ^ ?m \<le> f" and u: "f < 2 * 2 ^ ?m" by simp_all
  from m have p: "(2::nat) ^ ?m * 2 ^ (52 - ?m) = 2 ^ 52"
    by (simp flip: power_add)
  from l u have "f - 2 ^ ?m < 2 ^ ?m" by simp
  then have "?F < 2 ^ ?m * 2 ^ (52 - ?m)"
    by (rule mult_strict_right_mono) simp
  with p have F: "?F < 2 ^ 52" by simp
  from m have E: "?m + 874 < 2048" by simp
  note dp = double_parts [OF assms(1) E F]
  from l have "2 ^ 52 + ?F = (2 ^ ?m + (f - 2 ^ ?m)) * 2 ^ (52 - ?m)"
    by (simp only: distrib_right p)
  with l have M: "2 ^ 52 + ?F = f * 2 ^ (52 - ?m)" by simp
  from m have sh: "926 - (?m + 874) = 52 - ?m" by simp
  have d: "f * 2 ^ (52 - ?m) div 2 ^ (52 - ?m) = f" "f * 2 ^ (52 - ?m) mod 2 ^ (52 - ?m) = 0"
    by simp_all
  from assms(3) have mn: "min f (255 * 2 ^ 23) = f" by simp
  from m have c: "\<not> 897 \<le> ?m + 874" "?m + 874 \<noteq> 2047" "?m + 874 \<noteq> 0" by simp_all
  from c have "narrow_bits (sg * 2 ^ 63 + ((?m + 874) * 2 ^ 52 + ?F)) =
      sg * 2 ^ 31 + min (f * 2 ^ (52 - ?m) div 2 ^ (52 - ?m) +
        (if 2 ^ (52 - ?m - 1) < f * 2 ^ (52 - ?m) mod 2 ^ (52 - ?m) \<or>
            f * 2 ^ (52 - ?m) mod 2 ^ (52 - ?m) = 2 ^ (52 - ?m - 1) \<and>
            odd (f * 2 ^ (52 - ?m) div 2 ^ (52 - ?m)) then 1 else 0)) (255 * 2 ^ 23)"
    unfolding narrow_bits_def Let_def dp by (simp only: if_False sh M add_0)
  also have "\<dots> = sg * 2 ^ 31 + min f (255 * 2 ^ 23)"
    unfolding d by simp
  also from mn have "\<dots> = sg * 2 ^ 31 + f" by simp
  finally show "narrow_bits (widen_bits (sg * 2 ^ 31 + f)) = sg * 2 ^ 31 + f"
    unfolding w .
  from double_bound [OF assms(1) E F] show "widen_bits (sg * 2 ^ 31 + f) < 2 ^ 64"
    unfolding w .
qed


lemma single_decompose:
  "(n::nat) = (n div 2 ^ 31) * 2 ^ 31 + (n div 2 ^ 23 mod 2 ^ 8) * 2 ^ 23 + n mod 2 ^ 23"
proof -
  have "n div 2 ^ 23 div 2 ^ 8 = n div (2 ^ 23 * 2 ^ 8)"
    by (rule div_mult2_eq [symmetric])
  then have "n div 2 ^ 23 div 2 ^ 8 = n div 2 ^ 31"
    by simp
  then have "n div 2 ^ 23 = (n div 2 ^ 31) * 2 ^ 8 + n div 2 ^ 23 mod 2 ^ 8"
    using div_mult_mod_eq [of "n div 2 ^ 23" "2 ^ 8"] by simp
  then have "(n div 2 ^ 23) * 2 ^ 23 = (n div 2 ^ 31) * 2 ^ 31 + (n div 2 ^ 23 mod 2 ^ 8) * 2 ^ 23"
    by simp
  moreover have "n = (n div 2 ^ 23) * 2 ^ 23 + n mod 2 ^ 23"
    by (rule div_mult_mod_eq [symmetric])
  ultimately show ?thesis
    by (simp only:)
qed

lemma narrow_widen_bits:
  assumes "n < 2 ^ 32"
    and "\<not> (n div 2 ^ 23 mod 2 ^ 8 = 255 \<and> 0 < n mod 2 ^ 23 \<and> n mod 2 ^ 23 < 2 ^ 22)"
  shows "narrow_bits (widen_bits n) = n \<and> widen_bits n < 2 ^ 64"
proof -
  let ?sg = "n div 2 ^ 31" and ?e = "n div 2 ^ 23 mod 2 ^ 8" and ?f = "n mod 2 ^ 23"
  from assms(1) have sg: "?sg < 2" by simp
  have e: "?e < 256" by simp
  have f: "?f < 2 ^ 23" by simp
  note n = single_decompose [of n]
  consider (zero) "?e = 0" "?f = 0" | (subnormal) "?e = 0" "0 < ?f"
    | (special) "?e = 255" | (normal) "0 < ?e" "?e < 255"
    using e by linarith
  then show ?thesis
  proof cases
    case zero
    with n have "n = ?sg * 2 ^ 31" by simp
    with narrow_widen_zero [OF sg] show ?thesis by simp
  next
    case subnormal
    with n have "n = ?sg * 2 ^ 31 + ?f" by simp
    with narrow_widen_subnormal [OF sg subnormal(2) f] show ?thesis by simp
  next
    case special
    with assms(2) have "?f = 0 \<or> 2 ^ 22 \<le> ?f" by auto
    from narrow_widen_special [OF sg f this] n special show ?thesis by simp
  next
    case normal
    from narrow_widen_normal [OF sg normal f] n show ?thesis by simp
  qed
qed

lemma narrow_widen: "\<not> signalling_nan s \<Longrightarrow> float_narrow (float_widen s) = s"
proof -
  assume a: "\<not> signalling_nan s"
  have "unat s < 2 ^ LENGTH(32)" by (rule unsigned_less)
  then have b: "unat s < 2 ^ 32" by simp
  from a narrow_widen_bits [OF b]
  have r: "narrow_bits (widen_bits (unat s)) = unat s" and l: "widen_bits (unat s) < 2 ^ 64"
    by (simp_all add: signalling_nan_def)
  from l have "unat (of_nat (widen_bits (unat s)) :: 64 word) = widen_bits (unat s)"
    by (simp add: unat_of_nat)
  with r show ?thesis
    by (simp add: float_narrow_def float_widen_def)
qed

text \<open>
  Every single that is not a signalling NaN is the narrowing of its widening: the values
  a \<open>c_float\<close> field reads as are values the type represents.
\<close>

lemma single_values_representable:
  "\<not> signalling_nan s \<Longrightarrow> representable CFloat (PyFloat (float_widen s))"
  by (simp add: narrow_widen)

subsection \<open>Writing a field and reading it back\<close>



subsection \<open>Clearing the mapping and stamping it\<close>

lemma nth_store:
  "off + length bs \<le> length mem \<Longrightarrow> i < length mem \<Longrightarrow> i < off \<or> off + length bs \<le> i \<Longrightarrow>
     store off bs mem ! i = mem ! i"
  by (auto simp: store_def nth_append)

lemma store_zeros: "store 0 (replicate n 0) mem = replicate n 0 @ drop n mem"
  by (simp add: store_def)

lemma clearMappedBuffer_open:
  assumes "open_store_rw self"
  shows "fst (clearMappedBuffer self) = Inr ()"
    and "mapped (snd (clearMappedBuffer self)) =
           replicate (sizeof (as_ctype (structType self))) 0 @
           drop (sizeof (as_ctype (structType self))) (mapped self)"
    and "open_store_rw (snd (clearMappedBuffer self))"
    and "structType (snd (clearMappedBuffer self)) = structType self"
  using assms
  by (auto simp: open_store_rw_def open_store_def clearMappedBuffer_def mm_seek_def
      from_buffer_def called_def mapped_def set_mapped_def store_zeros
      split: option.splits)

lemma readMappedBuffer_open:
  assumes "open_store self"
  shows "fst (readMappedBuffer self) =
           Inr (Val (PyCData (as_ctype (structType self))
                  (take (sizeof (as_ctype (structType self))) (mapped self))))"
  using assms
  by (auto simp: open_store_def readMappedBuffer_def mm_seek_def from_buffer_copy_def
      called_def mapped_def split: option.splits)

lemma updateLastUpdate_open:
  assumes "open_store_rw self"
    and "spec_resolve (as_ctype (structType self)) 0 [''header'', ''time_stamp''] =
           Inr (off, CDouble)"
  shows "fst (updateLastUpdate py now self) = Inr ()"
    and "mapped (snd (updateLastUpdate py now self)) =
           store off (float_to_bytes py now) (mapped self)"
proof -
  let ?t = "as_ctype (structType self)"
  from spec_resolve_last [OF assms(2)]
  obtain poff pt f where p: "spec_resolve ?t 0 [''header''] = Inr (poff, pt)"
    and f: "field_of pt ''time_stamp'' = Some f" and n: "\<not> is_leaf pt"
    and o: "off = poff + fst f" and T: "CDouble = snd f"
    by auto
  from n have x: "field_get py (mapped self) poff pt = View pt poff"
    by (cases pt) simp_all
  from getattrs_resolved [OF p, of py "mapped self"] x
  have g: "py_getattr py (mapped self) (View ?t 0) ''header'' = Inr (View pt poff)"
    by (simp add: top_view split: sum.splits)
  from py_setattr_field [OF f, of py "mapped self" poff "PyFloat now"] o T [symmetric]
  have s: "py_setattr py (mapped self) (View pt poff) ''time_stamp'' (PyFloat now) =
             Inr (store off (float_to_bytes py now) (mapped self))"
    by (simp add: as_double_float)
  from assms(1) obtain m where m: "mm self = Some m" "\<not> closed m" "writable m"
    "sizeof ?t \<le> length (buf m)"
    by (auto simp: open_store_rw_def open_store_def split: option.splits)
  have e: "mapped (self\<lparr>mm := Some (m\<lparr>pos := 0\<rparr>), calls := c\<rparr>) = mapped self" for c
    using m by (simp add: mapped_def)
  from m g s e show "fst (updateLastUpdate py now self) = Inr ()"
    by (simp add: updateLastUpdate_def mm_seek_def from_buffer_def called_def)
  from m g s e show "mapped (snd (updateLastUpdate py now self)) =
           store off (float_to_bytes py now) (mapped self)"
    by (simp add: updateLastUpdate_def mm_seek_def from_buffer_def called_def set_mapped_def
        mapped_def)
qed

text \<open>
  C7, as the code has it. On a store open for writing whose layout has a \<open>c_double\<close> at
  \<open>header.time_stamp\<close>, \<open>clearMappedBuffer\<close> returns \<open>None\<close> and overwrites the
  first \<open>sizeof(structType)\<close> bytes of the mapped region, header included, with zero
  bytes, and leaves the bytes after them as they were: the region is all zero afterwards
  when it has exactly the layout's size. \<open>readMappedBuffer\<close> then yields the all-zero
  record. \<open>updateLastUpdate\<close> after that returns \<open>None\<close>, stores the current time in
  the bytes of the timestamp field and leaves every other byte of the region as it was.
\<close>

theorem clear_then_stamp:
  assumes "open_store_rw self"
    and "spec_resolve (as_ctype (structType self)) 0 [''header'', ''time_stamp''] =
           Inr (off, CDouble)"
  shows
    "fst (clearMappedBuffer self) = Inr () \<and>
     mapped (snd (clearMappedBuffer self)) =
       replicate (sizeof (as_ctype (structType self))) 0 @
       drop (sizeof (as_ctype (structType self))) (mapped self) \<and>
     (length (mapped self) = sizeof (as_ctype (structType self)) \<longrightarrow>
        mapped (snd (clearMappedBuffer self)) = replicate (length (mapped self)) 0) \<and>
     fst (readMappedBuffer (snd (clearMappedBuffer self))) =
       Inr (Val (PyCData (as_ctype (structType self))
              (replicate (sizeof (as_ctype (structType self))) 0))) \<and>
     fst (updateLastUpdate py now (snd (clearMappedBuffer self))) = Inr () \<and>
     length (mapped (snd (updateLastUpdate py now (snd (clearMappedBuffer self))))) =
       length (mapped self) \<and>
     bytes_to_float py
       (slice off 8 (mapped (snd (updateLastUpdate py now (snd (clearMappedBuffer self)))))) = now \<and>
     (\<forall>i. i < length (mapped self) \<and> (i < off \<or> off + 8 \<le> i) \<longrightarrow>
        mapped (snd (updateLastUpdate py now (snd (clearMappedBuffer self)))) ! i =
        mapped (snd (clearMappedBuffer self)) ! i)"
proof -
  let ?t = "as_ctype (structType self)"
  let ?s1 = "snd (clearMappedBuffer self)"
  let ?s2 = "snd (updateLastUpdate py now ?s1)"
  let ?bs = "float_to_bytes py now"
  note c = clearMappedBuffer_open [OF assms(1)]
  from assms(1) have sz: "sizeof ?t \<le> length (mapped self)" and w: "wf_ctype ?t"
    by (auto simp: open_store_rw_def open_store_def mapped_def split: option.splits)
  from c(2) sz have l1: "length (mapped ?s1) = length (mapped self)"
    by simp
  from c(2) have z: "length (mapped self) = sizeof ?t \<longrightarrow>
        mapped ?s1 = replicate (length (mapped self)) 0"
    by simp
  from c(3) have o1: "open_store ?s1"
    by (simp add: open_store_rw_def)
  from readMappedBuffer_open [OF o1] c(2,4)
  have r: "fst (readMappedBuffer ?s1) = Inr (Val (PyCData ?t (replicate (sizeof ?t) 0)))"
    by simp
  from assms(2) c(4) have r1: "spec_resolve (as_ctype (structType ?s1)) 0
      [''header'', ''time_stamp''] = Inr (off, CDouble)"
    by simp
  note u = updateLastUpdate_open [OF c(3) r1, of py now]
  from spec_resolve_bounds [OF w assms(2)] have b: "off + 8 \<le> sizeof ?t" by simp
  with sz l1 have bd: "off + length ?bs \<le> length (mapped ?s1)"
    by (simp add: length_float_to_bytes)
  from u(2) length_store [OF bd] l1 have l2: "length (mapped ?s2) = length (mapped self)"
    by simp
  from slice_store [OF bd] u(2) have "slice off 8 (mapped ?s2) = ?bs"
    by (simp add: length_float_to_bytes)
  then have t: "bytes_to_float py (slice off 8 (mapped ?s2)) = now"
    by (simp add: float_roundtrip)
  have f: "\<forall>i. i < length (mapped self) \<and> (i < off \<or> off + 8 \<le> i) \<longrightarrow>
        mapped ?s2 ! i = mapped ?s1 ! i"
  proof (intro allI impI)
    fix i
    assume "i < length (mapped self) \<and> (i < off \<or> off + 8 \<le> i)"
    with l1 have "i < length (mapped ?s1)" and "i < off \<or> off + length ?bs \<le> i"
      by (simp_all add: length_float_to_bytes)
    from nth_store [OF bd this] u(2) show "mapped ?s2 ! i = mapped ?s1 ! i"
      by simp
  qed
  from c(1) c(2) z r u(1) l2 t f show ?thesis by blast
qed

theorem clear_region_counterexample:
  "open_store_rw telemetry_long \<and>
   length (mapped telemetry_long) = 21 \<and>
   fst (clearMappedBuffer telemetry_long) = Inr () \<and>
   mapped (snd (clearMappedBuffer telemetry_long)) = replicate 17 0 @ [9, 9, 9, 9] \<and>
   mapped (snd (clearMappedBuffer telemetry_long)) \<noteq> replicate (length (mapped telemetry_long)) 0"
  by (simp add: example_defs open_store_rw_def open_store_def clearMappedBuffer_def mm_seek_def
      from_buffer_def called_def mapped_def set_mapped_def store_def)

theorem clear_then_stamp_witness:
  "open_store_rw telemetry_editor \<and>
   spec_resolve (as_ctype (structType telemetry_editor)) 0 [''header'', ''time_stamp''] =
     Inr (2, CDouble) \<and>
   length (mapped telemetry_editor) = sizeof (as_ctype (structType telemetry_editor)) \<and>
   fst (clearMappedBuffer telemetry_editor) = Inr () \<and>
   mapped (snd (clearMappedBuffer telemetry_editor)) = replicate 17 0 \<and>
   fst (readMappedBuffer (snd (clearMappedBuffer telemetry_editor))) =
     Inr (Val (PyCData (as_ctype Telemetry) (replicate 17 0))) \<and>
   fst (updateLastUpdate host 7 (snd (clearMappedBuffer telemetry_editor))) = Inr () \<and>
   bytes_to_float host
     (slice 2 8 (mapped (snd (updateLastUpdate host 7 (snd (clearMappedBuffer telemetry_editor)))))) = 7 \<and>
   mapped (snd (updateLastUpdate host 7 (snd (clearMappedBuffer telemetry_editor)))) ! 1 =
     mapped (snd (clearMappedBuffer telemetry_editor)) ! 1 \<and>
   mapped (snd (updateLastUpdate host 7 (snd (clearMappedBuffer telemetry_editor)))) ! 10 =
     mapped (snd (clearMappedBuffer telemetry_editor)) ! 10"
proof -
  have o: "open_store_rw telemetry_editor"
    using example_open_store by simp
  have l: "length (mapped telemetry_editor) = sizeof (as_ctype (structType telemetry_editor))"
    "length (mapped telemetry_editor) = 17"
    "sizeof (as_ctype (structType telemetry_editor)) = 17"
    "structType telemetry_editor = Telemetry"
    by (simp_all add: example_defs mapped_def)
  from clear_then_stamp [OF o example_time_stamp, of host 7] l o example_time_stamp
  show ?thesis by simp
qed

end
